theory Spec2Isabelle
  imports Main
begin

section \<open>The browser dashboard of PyPNMGui (frontend/static/js/app.js)\<close>

text \<open>
  The dashboard is one Vue component: its \<open>data()\<close> object is the state, its methods
  read and assign the fields of \<open>this\<close>. The embedding keeps the state as a record with
  the source's field names and turns every method into a function from state to state.
  What a method does to the outside (toast calls, HTTP requests, timers, WebSocket
  objects, deferred chart work) is appended to the field \<open>trace\<close>, in program order.
  What the outside answers (the outcome of a fetch, the clock, whether a constructor
  throws) is a parameter of the method.
\<close>

subsection \<open>JavaScript values\<close>

text \<open>
  \<open>a || b\<close> on a string that may be missing: the empty string, \<open>null\<close> and
  \<open>undefined\<close> are falsy. On a number, \<open>0\<close> is falsy.
\<close>

definition truthy_str :: "string option \<Rightarrow> bool" where
  "truthy_str v = (case v of None \<Rightarrow> False | Some s \<Rightarrow> s \<noteq> [])"

definition truthy_num :: "nat option \<Rightarrow> bool" where
  "truthy_num v = (case v of None \<Rightarrow> False | Some n \<Rightarrow> n \<noteq> 0)"

definition js_or :: "string option \<Rightarrow> string \<Rightarrow> string" where
  "js_or v d = (case v of None \<Rightarrow> d | Some s \<Rightarrow> if s = [] then d else s)"

definition js_or_num :: "nat \<Rightarrow> nat \<Rightarrow> nat" where
  "js_or_num n d = (if n = 0 then d else n)"

text \<open>
  \<open>String.prototype.toLowerCase\<close> and \<open>String.prototype.includes\<close>. Strings are
  sequences of code units; the letters \<open>A\<close> to \<open>Z\<close> are mapped to \<open>a\<close> to \<open>z\<close>, any
  other code unit is kept.
\<close>

definition lower_char :: "char \<Rightarrow> char" where
  "lower_char c =
     (let n = (of_char c :: nat) in if 65 \<le> n \<and> n \<le> 90 then char_of (n + 32) else c)"

definition toLowerCase :: "string \<Rightarrow> string" where
  "toLowerCase s = map lower_char s"

fun startsWith :: "string \<Rightarrow> string \<Rightarrow> bool" where
  "startsWith s [] = True"
| "startsWith [] (c # cs) = False"
| "startsWith (x # xs) (c # cs) = (x = c \<and> startsWith xs cs)"

fun includes_str :: "string \<Rightarrow> string \<Rightarrow> bool" where
  "includes_str [] sub = (sub = [])"
| "includes_str (x # xs) sub = (startsWith (x # xs) sub \<or> includes_str xs sub)"

subsection \<open>Records held in the state\<close>

text \<open>
  An entry of the CMTS list, as \<open>loadCmtsList\<close> builds it from the backend's rows
  (\<open>name: cmts.HostName, ip: cmts.IPAddress, vendor: cmts.Vendor, type: cmts.Type,
  alias: cmts.Alias || ''\<close>); the four fields the filter reads are strings. The
  fields carry the prefix \<open>c_\<close> because \<open>alias\<close> is a keyword of Isabelle.
\<close>

record cmts =
  c_name :: string
  c_ip :: string
  c_vendor :: string
  c_type :: string
  c_alias :: string

text \<open>
  A modem, as \<open>getLiveModems\<close> builds it or as the backend hands it to
  \<open>searchModems\<close>. \<open>mac_address\<close> is always there; the other fields may be missing.
\<close>

record modem =
  mac_address :: string
  ip_address :: "string option"
  cmts_ip :: "string option"
  cmts_community :: "string option"
  tftp_ip :: "string option"

record utsc_config =
  triggerMode :: nat
  centerFreqMhz :: nat
  spanMhz :: nat
  numBins :: nat
  rfPortIfindex :: "nat option"
  repeatPeriodMs :: nat
  freerunDurationMs :: nat
  triggerCount :: nat

record usrxmer_config =
  ofdmaIfindex :: "nat option"
  preEq :: bool

text \<open>
  The spectrum payload: the frequency and amplitude arrays of one capture. The samples
  are carried from the backend to the chart and never computed with.
\<close>

record raw_data =
  frequencies :: "int list"
  amplitudes :: "int list"

record utsc_data =
  d_message :: "string option"
  d_raw_data :: "raw_data option"

text \<open>A plot as the backend sends it (\<open>data\<close> is the base64 text of the image).\<close>

record plot =
  p_data :: "string option"
  p_filename :: "string option"

text \<open>The object stored in \<open>utscPlotImage\<close>: \<open>{data, filename, _timestamp}\<close>.\<close>

record plot_image =
  pi_data :: "string option"
  pi_filename :: "string option"
  pi_timestamp :: "int option"

subsection \<open>What the proxy answers\<close>

text \<open>
  The parsed JSON body of an answer of the proxy. A field that is missing is \<open>None\<close>
  or \<open>False\<close> (\<open>undefined\<close> is falsy). The prefix \<open>r_\<close> keeps the field names apart
  from those of the other records.
\<close>

record response =
  success :: bool
  r_error :: "string option"
  r_message :: "string option"
  r_data :: "utsc_data option"
  r_plot :: "plot option"
  is_ready :: bool
  is_error :: bool
  is_busy :: bool

text \<open>
  How \<open>await fetch(...)\<close> followed by \<open>await response.json()\<close> ends: the fetch
  rejects (network error or abort), the body is not JSON, the body is the JSON
  \<open>null\<close> (every property read on it throws a TypeError), or the body is parsed.
\<close>

datatype fetch_outcome = FetchFailed | JsonFailed | JsonNullBody | Parsed response

text \<open>How \<open>initUtscSciChart\<close> ends: the two handles are the surface and its data series.\<close>

datatype init_outcome = LibMissing | DivMissing | InitThrew | Created nat nat

text \<open>
  A frame of the live stream after \<open>JSON.parse(event.data)\<close>: the text is not JSON,
  it is \<open>null\<close>, it is a number, string, boolean or array (no \<open>type\<close> property), or
  it is an object.
\<close>

record frame =
  f_type :: "string option"
  f_buffer_size :: "int option"
  f_raw_data :: "raw_data option"
  f_plot :: "plot option"
  f_timestamp :: "int option"
  f_message :: "string option"

datatype ws_data = Unparseable | JsonNull | JsonScalar | JsonObject frame

subsection \<open>What the component does to the outside\<close>

datatype level = Info | Success | Warning | Error

text \<open>
  The message of a toast: a text, \<open>undefined\<close>, or the template of \<open>onopen\<close>
  (\<open>UTSC stream: ...s refresh, ...s duration\<close>) with the two numbers it formats.
\<close>

datatype message = Text string | Undefined | StreamInfo nat nat

datatype jval = JStr string | JNum nat | JBool bool | JNull

record request =
  url :: string
  body :: "(string \<times> jval) list"

text \<open>\<open>JSON.stringify\<close> drops a property whose value is \<open>undefined\<close>.\<close>

definition opt_field :: "string \<Rightarrow> string option \<Rightarrow> (string \<times> jval) list" where
  "opt_field k v = (case v of None \<Rightarrow> [] | Some x \<Rightarrow> [(k, JStr x)])"

definition num_or_null :: "nat option \<Rightarrow> jval" where
  "num_or_null v = (case v of None \<Rightarrow> JNull | Some n \<Rightarrow> JNum n)"

text \<open>The values interpolated into the URL of the live stream.\<close>

record ws_params =
  ws_mac :: string
  ws_refresh :: nat
  ws_duration :: nat
  ws_rf_port :: "nat option"
  ws_cmts_ip :: "string option"
  ws_community :: string

text \<open>The closures handed to \<open>setTimeout\<close> and \<open>setInterval\<close>.\<close>

datatype callback =
    AbortFetch
  | Resolve
  | PollUtscStatus
  | Reconnect
  | AutoRestart
  | CheckWs

text \<open>The work handed to \<open>$nextTick\<close>.\<close>

datatype deferred =
    UpdateUtscSciChart raw_data
  | RenderUtscChart
  | InitThenShow "raw_data option"

text \<open>
  One entry of the trace. \<open>Toast\<close> is a call \<open>this.$toast?.level(message)\<close>; timers
  carry the identifier the browser returned, the delay in milliseconds and the closure.
\<close>

datatype effect =
    Toast level message
  | Fetch request
  | SetTimeout nat nat callback
  | SetInterval nat nat callback
  | ClearTimeout nat
  | ClearInterval nat
  | NewWebSocket nat ws_params
  | WsClose nat
  | NextTick deferred
  | ChartDelete nat

datatype ws_status = CONNECTING | OPEN | CLOSING | CLOSED

subsection \<open>The state\<close>

text \<open>
  The fields of \<open>data()\<close> that the modelled methods touch, under their own names,
  and four fields of the page: whether \<open>this.$toast\<close> is defined, the WebSocket
  objects created so far (a socket is named by its position), the next timer
  identifier, and the trace. No method assigns \<open>toastInstalled\<close>.
\<close>

record state =
  snmpCommunityRW :: string
  snmpCommunityModem :: string
  selectedCmts :: string
  cmtsSearch :: string
  cmtsList :: "cmts list"
  cmtsListFull :: "cmts list"
  selectedModem :: "modem option"
  pnmOutputType :: string
  utscConfig :: utsc_config
  usRxmerConfig :: usrxmer_config
  runningUtsc :: bool
  utscStatus :: "response option"
  utscSpectrumData :: "utsc_data option"
  utscPlotImage :: "plot_image option"
  utscLiveMode :: bool
  utscLiveInterval :: "nat option"
  utscAutoRestartInterval :: "nat option"
  utscWebSocket :: "nat option"
  utscRefreshRate :: nat
  utscDuration :: nat
  utscBufferSize :: int
  utscInteractive :: bool
  utscSciChart :: "nat option"
  utscSciChartSeries :: "nat option"
  utscLastUpdateTime :: int
  utscUpdateThrottle :: int
  toastInstalled :: bool
  sockets :: "ws_status list"
  nextTimer :: nat
  trace :: "effect list"

text \<open>
  The values \<open>data()\<close> returns. \<open>app.js\<close> creates and mounts the application in one
  expression, \<open>createApp({...}).mount('#app')\<close>, and installs no plugin and no global
  property: \<open>this.$toast\<close> is undefined on this page.
\<close>

definition utscConfig0 :: utsc_config where
  "utscConfig0 = \<lparr>triggerMode = 2, centerFreqMhz = 50, spanMhz = 80, numBins = 3200,
     rfPortIfindex = None, repeatPeriodMs = 1000, freerunDurationMs = 55000,
     triggerCount = 10\<rparr>"

definition data0 :: state where
  "data0 = \<lparr>snmpCommunityRW = ''Z1gg0Sp3c1@l'', snmpCommunityModem = ''z1gg0m0n1t0r1ng'',
     selectedCmts = [], cmtsSearch = [], cmtsList = [], cmtsListFull = [],
     selectedModem = None, pnmOutputType = ''archive'', utscConfig = utscConfig0,
     usRxmerConfig = \<lparr>ofdmaIfindex = None, preEq = True\<rparr>, runningUtsc = False, utscStatus = None,
     utscSpectrumData = None, utscPlotImage = None, utscLiveMode = False,
     utscLiveInterval = None, utscAutoRestartInterval = None, utscWebSocket = None,
     utscRefreshRate = 500, utscDuration = 60, utscBufferSize = 0,
     utscInteractive = True, utscSciChart = None, utscSciChartSeries = None,
     utscLastUpdateTime = 0, utscUpdateThrottle = 100, toastInstalled = False,
     sockets = [], nextTimer = 1, trace = []\<rparr>"

text \<open>
  What the outside answers while one method runs: the clock, the outcome of each
  request by endpoint, whether \<open>new WebSocket\<close> returns, whether the SciChart library
  is there when \<open>ensureSciChartLoaded\<close> stops waiting, how the chart initialisation
  ends, whether the socket is open within the five seconds \<open>startUtscLive\<close> waits,
  and the message of a caught error.
\<close>

record env =
  now :: int
  start_out :: fetch_outcome
  stop_out :: fetch_outcome
  status_out :: fetch_outcome
  data_out :: fetch_outcome
  ctor_ok :: bool
  lib_loaded :: bool
  init_out :: init_outcome
  ws_opens :: bool
  err_message :: string

subsection \<open>Primitives\<close>

definition emit :: "effect \<Rightarrow> state \<Rightarrow> state" where
  "emit x s = s\<lparr>trace := trace s @ [x]\<rparr>"

text \<open>
  \<open>this.$toast?.level(message)\<close>: the optional chaining makes the call a no-op when
  \<open>$toast\<close> is undefined.
\<close>

definition toast_call :: "level \<Rightarrow> message \<Rightarrow> state \<Rightarrow> state" where
  "toast_call l m s = (if toastInstalled s then emit (Toast l m) s else s)"

definition toast :: "level \<Rightarrow> string \<Rightarrow> state \<Rightarrow> state" where
  "toast l m s = toast_call l (Text m) s"

text \<open>What such a call adds to the trace, by whether \<open>$toast\<close> is defined.\<close>

definition shown :: "bool \<Rightarrow> level \<Rightarrow> message \<Rightarrow> effect list" where
  "shown installed l m = (if installed then [Toast l m] else [])"

definition fetch :: "request \<Rightarrow> state \<Rightarrow> state" where
  "fetch r s = emit (Fetch r) s"

definition setTimeout :: "nat \<Rightarrow> callback \<Rightarrow> state \<Rightarrow> state" where
  "setTimeout ms cb s = (emit (SetTimeout (nextTimer s) ms cb) s)\<lparr>nextTimer := Suc (nextTimer s)\<rparr>"

definition setInterval :: "nat \<Rightarrow> callback \<Rightarrow> state \<Rightarrow> state" where
  "setInterval ms cb s = (emit (SetInterval (nextTimer s) ms cb) s)\<lparr>nextTimer := Suc (nextTimer s)\<rparr>"

text \<open>The effects a method has added to the trace of the state it started in.\<close>

definition emitted :: "state \<Rightarrow> state \<Rightarrow> effect list" where
  "emitted s s' = drop (length (trace s)) (trace s')"

subsection \<open>The requests\<close>

text \<open>
  Each request is a POST with a JSON body; the body is the list of its properties in
  the order of the object literal. \<open>API_BASE\<close> is \<open>/api\<close>.
\<close>

definition community_cmts :: "modem \<Rightarrow> string \<Rightarrow> (string \<times> jval) list" where
  "community_cmts m d = [(''community'', JStr (js_or (cmts_community m) d))]"

definition community_modem :: "state \<Rightarrow> (string \<times> jval) list" where
  "community_modem s =
     [(''community'', JStr (js_or (Some (snmpCommunityModem s)) ''z1gg0m0n1t0r1ng''))]"

definition loadSystemInfo_request :: "modem \<Rightarrow> state \<Rightarrow> request" where
  "loadSystemInfo_request m s =
     \<lparr>url = ''/api/pypnm/modem/'' @ mac_address m @ ''/channel-stats'',
      body = opt_field ''modem_ip'' (ip_address m) @ community_modem s\<rparr>"

definition loadChannelStats_request :: "modem \<Rightarrow> state \<Rightarrow> request" where
  "loadChannelStats_request m s =
     \<lparr>url = ''/api/pypnm/channel-stats/'' @ mac_address m,
      body = opt_field ''modem_ip'' (ip_address m) @ community_modem s\<rparr>"

definition loadEventLog_request :: "modem \<Rightarrow> state \<Rightarrow> request" where
  "loadEventLog_request m s =
     \<lparr>url = ''/api/pypnm/modem/'' @ mac_address m @ ''/event-log'',
      body = opt_field ''modem_ip'' (ip_address m) @ community_modem s\<rparr>"

definition runPnmMeasurement_request :: "string \<Rightarrow> modem \<Rightarrow> state \<Rightarrow> request" where
  "runPnmMeasurement_request measurementType m s =
     \<lparr>url = ''/api/pypnm/measurements/'' @ measurementType @ ''/'' @ mac_address m,
      body = opt_field ''modem_ip'' (ip_address m) @ community_modem s
        @ [(''output_type'', JStr (pnmOutputType s))]
        @ (if measurementType = ''fec_summary'' then [(''fec_summary_type'', JNum 2)] else [])
        @ (if measurementType = ''histogram'' then [(''sample_duration'', JNum 60)] else [])\<rparr>"

definition configureUtsc_request :: "modem \<Rightarrow> state \<Rightarrow> request" where
  "configureUtsc_request m s =
     \<lparr>url = ''/api/pypnm/upstream/utsc/configure/'' @ mac_address m,
      body = opt_field ''cmts_ip'' (cmts_ip m)
        @ [(''rf_port_ifindex'', num_or_null (rfPortIfindex (utscConfig s))),
           (''trigger_mode'', JNum (triggerMode (utscConfig s))),
           (''center_freq_hz'', JNum (centerFreqMhz (utscConfig s) * 1000000)),
           (''span_hz'', JNum (spanMhz (utscConfig s) * 1000000)),
           (''num_bins'', JNum (numBins (utscConfig s))),
           (''output_format'', JNum 2),
           (''repeat_period_ms'', JNum (repeatPeriodMs (utscConfig s))),
           (''freerun_duration_ms'', JNum (freerunDurationMs (utscConfig s)))]
        @ community_cmts m ''Z1gg0@LL''\<rparr>"

text \<open>
  The body of the start request, shared by \<open>startUtsc\<close> and \<open>startUtscLive\<close>;
  \<open>cmtsIp\<close> is the constant of that name in the source.
\<close>

definition startUtsc_request :: "modem \<Rightarrow> string \<Rightarrow> state \<Rightarrow> request" where
  "startUtsc_request m cmtsIp s =
     \<lparr>url = ''/api/pypnm/upstream/utsc/start/'' @ mac_address m,
      body = [(''cmts_ip'', JStr cmtsIp),
              (''rf_port_ifindex'', num_or_null (rfPortIfindex (utscConfig s)))]
        @ community_cmts m ''Z1gg0Sp3c1@l''
        @ opt_field ''tftp_ip'' (tftp_ip m)
        @ [(''repeat_period_ms'', JNum (js_or_num (repeatPeriodMs (utscConfig s)) 1000)),
           (''freerun_duration_ms'', JNum (js_or_num (freerunDurationMs (utscConfig s)) 55000)),
           (''trigger_count'', JNum (js_or_num (triggerCount (utscConfig s)) 10))]\<rparr>"

definition stopUtsc_request :: "modem \<Rightarrow> state \<Rightarrow> request" where
  "stopUtsc_request m s =
     \<lparr>url = ''/api/pypnm/upstream/utsc/stop/'' @ mac_address m,
      body = opt_field ''cmts_ip'' (cmts_ip m)
        @ [(''rf_port_ifindex'', num_or_null (rfPortIfindex (utscConfig s)))]
        @ community_cmts m ''Z1gg0Sp3c1@l''\<rparr>"

definition pollUtscStatus_request :: "modem \<Rightarrow> state \<Rightarrow> request" where
  "pollUtscStatus_request m s =
     \<lparr>url = ''/api/pypnm/upstream/utsc/status/'' @ mac_address m,
      body = opt_field ''cmts_ip'' (cmts_ip m)
        @ [(''rf_port_ifindex'', num_or_null (rfPortIfindex (utscConfig s)))]
        @ community_cmts m ''Z1gg0@LL''\<rparr>"

definition fetchUtscData_request :: "modem \<Rightarrow> state \<Rightarrow> request" where
  "fetchUtscData_request m s =
     \<lparr>url = ''/api/pypnm/upstream/utsc/data/'' @ mac_address m,
      body = opt_field ''cmts_ip'' (cmts_ip m)
        @ [(''rf_port_ifindex'', num_or_null (rfPortIfindex (utscConfig s)))]
        @ community_cmts m ''Z1gg0Sp3c1@l''\<rparr>"

definition startUsRxmer_request :: "modem \<Rightarrow> state \<Rightarrow> request" where
  "startUsRxmer_request m s =
     \<lparr>url = ''/api/pypnm/upstream/rxmer/start/'' @ mac_address m,
      body = opt_field ''cmts_ip'' (cmts_ip m)
        @ [(''ofdma_ifindex'', num_or_null (ofdmaIfindex (usRxmerConfig s))),
           (''pre_eq'', JBool (preEq (usRxmerConfig s)))]
        @ community_cmts m ''Z1gg0@LL''\<rparr>"

definition pollUsRxmerStatus_request :: "modem \<Rightarrow> state \<Rightarrow> request" where
  "pollUsRxmerStatus_request m s =
     \<lparr>url = ''/api/pypnm/upstream/rxmer/status/'' @ mac_address m,
      body = opt_field ''cmts_ip'' (cmts_ip m)
        @ [(''ofdma_ifindex'', num_or_null (ofdmaIfindex (usRxmerConfig s)))]
        @ community_cmts m ''Z1gg0@LL''\<rparr>"

definition fetchUsRxmerData_request :: "modem \<Rightarrow> state \<Rightarrow> request" where
  "fetchUsRxmerData_request m s =
     \<lparr>url = ''/api/pypnm/upstream/rxmer/data/'' @ mac_address m,
      body = opt_field ''cmts_ip'' (cmts_ip m)
        @ [(''ofdma_ifindex'', num_or_null (ofdmaIfindex (usRxmerConfig s)))]
        @ community_cmts m ''Z1gg0@LL''\<rparr>"

text \<open>
  The request of \<open>loadUpstreamInterfaces\<close>, which \<open>selectModem\<close> sends for a modem
  with a CMTS IP: the discovery of the RF port. Its body is \<open>{cmts_ip}\<close>.
\<close>

definition loadUpstreamInterfaces_request :: "modem \<Rightarrow> request" where
  "loadUpstreamInterfaces_request m =
     \<lparr>url = ''/api/pypnm/upstream/discover-rf-port/'' @ mac_address m,
      body = opt_field ''cmts_ip'' (cmts_ip m)\<rparr>"

text \<open>
  The requests the component posts to the proxy for the selected modem \<open>m\<close>: every
  \<open>fetch\<close> of \<open>app.js\<close> whose URL names the modem, one per method.
\<close>

definition measurement_requests :: "string \<Rightarrow> string \<Rightarrow> modem \<Rightarrow> state \<Rightarrow> request list" where
  "measurement_requests measurementType cmtsIp m s =
     [loadSystemInfo_request m s, loadChannelStats_request m s, loadEventLog_request m s,
      runPnmMeasurement_request measurementType m s, loadUpstreamInterfaces_request m,
      configureUtsc_request m s, startUtsc_request m cmtsIp s, stopUtsc_request m s,
      pollUtscStatus_request m s, fetchUtscData_request m s, startUsRxmer_request m s,
      pollUsRxmerStatus_request m s, fetchUsRxmerData_request m s]"

subsection \<open>The CMTS filter\<close>

definition cmts_matches :: "string \<Rightarrow> cmts \<Rightarrow> bool" where
  "cmts_matches search c =
     (includes_str (toLowerCase (c_name c)) search \<or>
      includes_str (toLowerCase (c_alias c)) search \<or>
      includes_str (toLowerCase (c_ip c)) search \<or>
      includes_str (toLowerCase (c_vendor c)) search)"

definition filterCmtsList :: "state \<Rightarrow> state" where
  "filterCmtsList s =
     (if cmtsSearch s = [] then s\<lparr>cmtsList := cmtsListFull s\<rparr>
      else s\<lparr>cmtsList := filter (cmts_matches (toLowerCase (cmtsSearch s))) (cmtsListFull s)\<rparr>)"

subsection \<open>The chart\<close>

text \<open>
  \<open>destroyUtscSciChart\<close>: \<open>delete()\<close> is called inside a try block whose handler only
  logs, and both references are cleared after it.
\<close>

definition destroyUtscSciChart :: "state \<Rightarrow> state" where
  "destroyUtscSciChart s =
     (case utscSciChart s of
        None \<Rightarrow> s
      | Some c \<Rightarrow> (emit (ChartDelete c) s)\<lparr>utscSciChart := None, utscSciChartSeries := None\<rparr>)"

text \<open>
  \<open>ensureSciChartLoaded\<close> polls for the library every 100 ms for at most ten seconds;
  the polling is not unrolled, its result is \<open>lib_loaded\<close>.
\<close>

definition ensureSciChartLoaded :: "env \<Rightarrow> state \<Rightarrow> state" where
  "ensureSciChartLoaded e s =
     (if lib_loaded e then s else toast Error ''SciChart library failed to load'' s)"

definition initUtscSciChart :: "env \<Rightarrow> state \<Rightarrow> state" where
  "initUtscSciChart e s =
     (let s1 = destroyUtscSciChart s in
      case init_out e of
        LibMissing \<Rightarrow> toast Error ''SciChart library failed to load'' s1
      | DivMissing \<Rightarrow> s1
      | InitThrew \<Rightarrow> toast Error ''Failed to initialize interactive chart'' s1
      | Created c d \<Rightarrow> s1\<lparr>utscSciChart := Some c, utscSciChartSeries := Some d\<rparr>)"

subsection \<open>The live stream\<close>

fun close_status :: "ws_status \<Rightarrow> ws_status" where
  "close_status CONNECTING = CLOSING"
| "close_status OPEN = CLOSING"
| "close_status CLOSING = CLOSING"
| "close_status CLOSED = CLOSED"

text \<open>\<open>socket.close()\<close>: the closing handshake starts; a closed socket stays closed.\<close>

definition ws_close :: "nat \<Rightarrow> state \<Rightarrow> state" where
  "ws_close w s =
     emit (WsClose w)
       (s\<lparr>sockets := (if w < length (sockets s)
                        then (sockets s)[w := close_status (sockets s ! w)]
                        else sockets s)\<rparr>)"

definition stopUtscWebSocket :: "state \<Rightarrow> state" where
  "stopUtscWebSocket s =
     (let s1 = (case utscWebSocket s of
                  None \<Rightarrow> s
                | Some w \<Rightarrow> (ws_close w s)\<lparr>utscWebSocket := None\<rparr>);
          s2 = (case utscLiveInterval s1 of
                  None \<Rightarrow> s1
                | Some i \<Rightarrow> (emit (ClearInterval i) s1)\<lparr>utscLiveInterval := None\<rparr>)
      in destroyUtscSciChart s2)"

definition utsc_ws_params :: "modem \<Rightarrow> state \<Rightarrow> ws_params" where
  "utsc_ws_params m s =
     \<lparr>ws_mac = mac_address m, ws_refresh = utscRefreshRate s, ws_duration = utscDuration s,
      ws_rf_port = rfPortIfindex (utscConfig s), ws_cmts_ip = cmts_ip m,
      ws_community = js_or (cmts_community m)
                       (js_or (Some (snmpCommunityRW s)) ''Z1gg0Sp3c1@l'')\<rparr>"

text \<open>
  \<open>startUtscWebSocket\<close>. When the constructor throws, the handler of the try block
  toasts and the field keeps the \<open>null\<close> that \<open>stopUtscWebSocket\<close> left.
\<close>

definition startUtscWebSocket :: "env \<Rightarrow> state \<Rightarrow> state" where
  "startUtscWebSocket e s =
     (case selectedModem s of
        None \<Rightarrow> s
      | Some m \<Rightarrow>
          let s1 = stopUtscWebSocket s in
          if ctor_ok e
          then (emit (NewWebSocket (length (sockets s1)) (utsc_ws_params m s1)) s1)
                 \<lparr>sockets := sockets s1 @ [CONNECTING],
                  utscWebSocket := Some (length (sockets s1))\<rparr>
          else toast Error ''Failed to connect UTSC stream'' s1)"

definition set_buffer_size :: "frame \<Rightarrow> state \<Rightarrow> state" where
  "set_buffer_size d s =
     (case f_buffer_size d of None \<Rightarrow> s | Some b \<Rightarrow> s\<lparr>utscBufferSize := b\<rparr>)"

text \<open>
  The part of the \<open>spectrum\<close> branch behind the throttle: the chart update is handed
  to \<open>$nextTick\<close>, the plot image is replaced.
\<close>

definition apply_spectrum :: "frame \<Rightarrow> state \<Rightarrow> state" where
  "apply_spectrum d s =
     (let s1 = (case f_raw_data d of
                  None \<Rightarrow> s
                | Some raw \<Rightarrow> if utscInteractive s
                              then emit (NextTick (UpdateUtscSciChart raw)) s else s)
      in case f_plot d of
           None \<Rightarrow> s1
         | Some p \<Rightarrow>
             let s2 = s1\<lparr>utscPlotImage :=
                          Some \<lparr>pi_data = p_data p, pi_filename = p_filename p,
                                pi_timestamp = f_timestamp d\<rparr>\<rparr>
             in if \<not> utscInteractive s2 then emit (NextTick RenderUtscChart) s2 else s2)"

text \<open>
  The \<open>onmessage\<close> handler; \<open>t\<close> is what \<open>Date.now()\<close> returns. The handler of its
  try block only logs, and so do the branches \<open>error\<close> and \<open>connected\<close>.
\<close>

definition onmessage :: "int \<Rightarrow> ws_data \<Rightarrow> state \<Rightarrow> state" where
  "onmessage t ev s =
     (case ev of
        Unparseable \<Rightarrow> s
      | JsonNull \<Rightarrow> s
      | JsonScalar \<Rightarrow> s
      | JsonObject d \<Rightarrow>
          if f_type d = Some ''spectrum'' then
            (let s1 = set_buffer_size d s in
             if t - utscLastUpdateTime s1 < utscUpdateThrottle s1 then s1
             else apply_spectrum d (s1\<lparr>utscLastUpdateTime := t\<rparr>))
          else if f_type d = Some ''buffering'' then set_buffer_size d s
          else if f_type d = Some ''buffering_complete'' then
            toast_call Success (case f_message d of None \<Rightarrow> Undefined | Some m \<Rightarrow> Text m) s
          else if f_type d = Some ''heartbeat'' then set_buffer_size d s
          else s)"

text \<open>\<open>onopen\<close>; \<open>refreshMs\<close> and \<open>durationS\<close> are the constants its closure captured.\<close>

definition onopen :: "nat \<Rightarrow> nat \<Rightarrow> state \<Rightarrow> state" where
  "onopen refreshMs durationS s = toast_call Success (StreamInfo refreshMs durationS) s"

definition onerror :: "state \<Rightarrow> state" where
  "onerror s = toast Error ''UTSC stream error'' s"


text \<open>The closure \<open>onclose\<close> hands to \<open>setTimeout\<close>.\<close>

definition reconnect :: "env \<Rightarrow> state \<Rightarrow> state" where
  "reconnect e s = (if utscLiveMode s then startUtscWebSocket e s else s)"

subsection \<open>The UTSC control operations\<close>

text \<open>
  An \<open>async\<close> method is cut at the \<open>await\<close> of its request: the part behind it is a
  function of its own (\<open>_resume\<close>) on the state it finds when the answer is there.
\<close>

definition store_plot :: "int \<Rightarrow> plot option \<Rightarrow> plot_image option" where
  "store_plot t v =
     (case v of
        None \<Rightarrow> None
      | Some p \<Rightarrow> Some \<lparr>pi_data = p_data p, pi_filename = p_filename p, pi_timestamp = Some t\<rparr>)"

definition fetchUtscData_loaded :: "int \<Rightarrow> response \<Rightarrow> utsc_data \<Rightarrow> state \<Rightarrow> state" where
  "fetchUtscData_loaded t r d s =
     (let s1 = s\<lparr>utscSpectrumData := Some d, utscPlotImage := store_plot t (r_plot r)\<rparr>;
          s2 = (if utscSciChart s1 = None then emit (NextTick (InitThenShow (d_raw_data d))) s1
                else s1)
      in if \<not> utscLiveMode s2 then toast Success ''UTSC spectrum data loaded'' s2 else s2)"

definition fetchUtscData_failed :: "state \<Rightarrow> state" where
  "fetchUtscData_failed s =
     (if \<not> utscLiveMode s then toast Error ''Failed to fetch UTSC data'' s else s)"

definition fetchUtscData_resume :: "env \<Rightarrow> state \<Rightarrow> state" where
  "fetchUtscData_resume e s =
     (case data_out e of
        Parsed r \<Rightarrow>
          (case r_data r of
             Some d \<Rightarrow>
               if success r then fetchUtscData_loaded (now e) r d s
               else toast Error
                      (js_or (r_message r) (js_or (r_error r) ''Failed to fetch UTSC data'')) s
           | None \<Rightarrow>
               toast Error
                 (js_or (r_message r) (js_or (r_error r) ''Failed to fetch UTSC data'')) s)
      | FetchFailed \<Rightarrow> fetchUtscData_failed s
      | JsonFailed \<Rightarrow> fetchUtscData_failed s
      | JsonNullBody \<Rightarrow> fetchUtscData_failed s)
     \<lparr>runningUtsc := False\<rparr>"

definition fetchUtscData :: "env \<Rightarrow> state \<Rightarrow> state" where
  "fetchUtscData e s =
     (case selectedModem s of
        None \<Rightarrow> s\<lparr>runningUtsc := False\<rparr>
      | Some m \<Rightarrow>
          if \<not> truthy_str (cmts_ip m) then s\<lparr>runningUtsc := False\<rparr>
          else fetchUtscData_resume e (fetch (fetchUtscData_request m s) s))"

text \<open>
  \<open>startUtsc\<close>. \<open>tid\<close> is the identifier of the three-minute abort timer, which
  \<open>clearTimeout\<close> cancels once the fetch has answered.
\<close>

definition startUtsc_resume :: "nat \<Rightarrow> env \<Rightarrow> state \<Rightarrow> state" where
  "startUtsc_resume tid e s =
     (case start_out e of
        Parsed r \<Rightarrow>
          (let s1 = emit (ClearTimeout tid) s in
           if success r then
             (let s2 = toast Info
                         (js_or (case r_data r of None \<Rightarrow> None | Some d \<Rightarrow> d_message d)
                                ''UTSC completed'' @ '' - fetching spectrum data...'') s1;
                  s3 = setTimeout 2000 Resolve s2;
                  s4 = fetchUtscData e s3
              in s4\<lparr>runningUtsc := False\<rparr>)
           else (toast Error (js_or (r_error r) ''Failed to start UTSC'') s1)
                  \<lparr>runningUtsc := False\<rparr>)
      | FetchFailed \<Rightarrow> (toast Error ''Failed to start UTSC'' s)\<lparr>runningUtsc := False\<rparr>
      | JsonFailed \<Rightarrow>
          (toast Error ''Failed to start UTSC'' (emit (ClearTimeout tid) s))
            \<lparr>runningUtsc := False\<rparr>
      | JsonNullBody \<Rightarrow>
          (toast Error ''Failed to start UTSC'' (emit (ClearTimeout tid) s))
            \<lparr>runningUtsc := False\<rparr>)"

definition startUtsc_begin :: "modem \<Rightarrow> string \<Rightarrow> state \<Rightarrow> state" where
  "startUtsc_begin m cmtsIp s =
     (let s1 = s\<lparr>runningUtsc := True, utscStatus := None\<rparr>;
          s2 = toast Info ''UTSC capture in progress - this may take up to 2 minutes...'' s1;
          s3 = setTimeout 180000 AbortFetch s2
      in fetch (startUtsc_request m cmtsIp s3) s3)"

definition startUtsc :: "env \<Rightarrow> state \<Rightarrow> state" where
  "startUtsc e s =
     (case selectedModem s of
        None \<Rightarrow> toast Warning ''Please select a modem first'' s
      | Some m \<Rightarrow>
          if \<not> truthy_num (rfPortIfindex (utscConfig s))
          then toast Warning ''Please select an RF Port'' s
          else
            (let cmtsIp = js_or (cmts_ip m) (selectedCmts s) in
             if cmtsIp = [] then toast Error ''CMTS IP not available'' s
             else startUtsc_resume (nextTimer s) e (startUtsc_begin m cmtsIp s)))"

text \<open>\<open>stopUtsc\<close>: the guard, the part before the \<open>await\<close>, the part behind it.\<close>

definition stopUtsc_guard :: "state \<Rightarrow> modem option" where
  "stopUtsc_guard s =
     (case selectedModem s of
        None \<Rightarrow> None
      | Some m \<Rightarrow>
          if truthy_str (cmts_ip m) \<and> truthy_num (rfPortIfindex (utscConfig s))
          then Some m else None)"

definition stopUtsc_begin :: "modem \<Rightarrow> state \<Rightarrow> state" where
  "stopUtsc_begin m s =
     (let s1 = toast Info ''Stopping UTSC capture...'' s in fetch (stopUtsc_request m s1) s1)"

definition stopUtsc_resume :: "env \<Rightarrow> state \<Rightarrow> state" where
  "stopUtsc_resume e s =
     (case stop_out e of
        Parsed r \<Rightarrow>
          (let s1 = s\<lparr>runningUtsc := False\<rparr> in
           if success r then
             (let s2 = toast Success ''UTSC capture stopped'' s1 in
              if utscLiveMode s2 then stopUtscWebSocket (s2\<lparr>utscLiveMode := False\<rparr>) else s2)
           else toast Error (js_or (r_message r) ''Failed to stop UTSC'') s1)
      | FetchFailed \<Rightarrow> (toast Error ''Failed to stop UTSC'' s)\<lparr>runningUtsc := False\<rparr>
      | JsonFailed \<Rightarrow> (toast Error ''Failed to stop UTSC'' s)\<lparr>runningUtsc := False\<rparr>
      | JsonNullBody \<Rightarrow> (toast Error ''Failed to stop UTSC'' s)\<lparr>runningUtsc := False\<rparr>)"

definition stopUtsc :: "env \<Rightarrow> state \<Rightarrow> state" where
  "stopUtsc e s =
     (case stopUtsc_guard s of
        None \<Rightarrow> toast Warning ''No active UTSC session to stop'' s
      | Some m \<Rightarrow> stopUtsc_resume e (stopUtsc_begin m s))"

text \<open>
  \<open>pollUtscStatus\<close>. Without a selected modem the read of \<open>mac_address\<close> throws
  inside the try block, whose handler clears the flag.
\<close>

definition pollUtscStatus_resume :: "env \<Rightarrow> state \<Rightarrow> state" where
  "pollUtscStatus_resume e s =
     (case status_out e of
        Parsed r \<Rightarrow>
          (let s1 = s\<lparr>utscStatus := Some r\<rparr> in
           if is_ready r then
             fetchUtscData e
               (toast Success ''UTSC capture complete - fetching data...''
                  (s1\<lparr>runningUtsc := False\<rparr>))
           else if is_error r then toast Error ''UTSC test failed'' (s1\<lparr>runningUtsc := False\<rparr>)
           else if is_busy r then setTimeout 2000 PollUtscStatus s1
           else s1)
      | FetchFailed \<Rightarrow> s\<lparr>runningUtsc := False\<rparr>
      | JsonFailed \<Rightarrow> s\<lparr>runningUtsc := False\<rparr>
      | JsonNullBody \<Rightarrow> s\<lparr>utscStatus := None, runningUtsc := False\<rparr>)"

definition pollUtscStatus :: "env \<Rightarrow> state \<Rightarrow> state" where
  "pollUtscStatus e s =
     (if \<not> runningUtsc s then s
      else case selectedModem s of
             None \<Rightarrow> s\<lparr>runningUtsc := False\<rparr>
           | Some m \<Rightarrow> pollUtscStatus_resume e (fetch (pollUtscStatus_request m s) s))"

subsection \<open>Live mode\<close>

text \<open>The closure of the auto-restart interval, the same in both methods that set it.\<close>

definition autoRestart :: "env \<Rightarrow> state \<Rightarrow> state" where
  "autoRestart e s = (if utscLiveMode s \<and> \<not> runningUtsc s then startUtsc e s else s)"

definition set_autoRestart :: "state \<Rightarrow> state" where
  "set_autoRestart s = (setInterval 50000 AutoRestart s)\<lparr>utscAutoRestartInterval := Some (nextTimer s)\<rparr>"

definition clear_autoRestart :: "state \<Rightarrow> state" where
  "clear_autoRestart s =
     (case utscAutoRestartInterval s of
        None \<Rightarrow> s
      | Some i \<Rightarrow> (emit (ClearInterval i) s)\<lparr>utscAutoRestartInterval := None\<rparr>)"



text \<open>What the browser does to a socket.\<close>

definition server_opened :: "nat \<Rightarrow> state \<Rightarrow> state" where
  "server_opened w s =
     (if w < length (sockets s) \<and> sockets s ! w = CONNECTING
      then s\<lparr>sockets := (sockets s)[w := OPEN]\<rparr> else s)"

definition server_closed :: "nat \<Rightarrow> state \<Rightarrow> state" where
  "server_closed w s =
     (if w < length (sockets s) then s\<lparr>sockets := (sockets s)[w := CLOSED]\<rparr> else s)"


text \<open>
  The five seconds \<open>startUtscLive\<close> waits for the socket: an interval of 100 ms reads
  \<open>readyState\<close> and is cleared when the socket is open or after 50 attempts.
\<close>

definition await_ws :: "env \<Rightarrow> state \<Rightarrow> state" where
  "await_ws e s =
     (let s1 = setInterval 100 CheckWs s;
          s2 = (case utscWebSocket s1 of
                  None \<Rightarrow> s1
                | Some w \<Rightarrow>
                    if ws_opens e
                    then onopen (utscRefreshRate s) (utscDuration s) (server_opened w s1)
                    else s1)
      in emit (ClearInterval (nextTimer s)) s2)"




text \<open>What a timer runs when it fires.\<close>

fun fire :: "callback \<Rightarrow> env \<Rightarrow> state \<Rightarrow> state" where
  "fire AbortFetch e s = s"
| "fire Resolve e s = s"
| "fire PollUtscStatus e s = pollUtscStatus e s"
| "fire Reconnect e s = reconnect e s"
| "fire AutoRestart e s = autoRestart e s"
| "fire CheckWs e s = s"

subsection \<open>Runs\<close>

text \<open>
  A run of the stream: the frames in the order they arrive, each with the value of
  \<open>Date.now()\<close> at its arrival. A frame is a chart update when its handler replaces the
  plot image or hands chart work to \<open>$nextTick\<close>.
\<close>

fun is_chart_effect :: "effect \<Rightarrow> bool" where
  "is_chart_effect (NextTick d) = True"
| "is_chart_effect (ChartDelete c) = True"
| "is_chart_effect x = False"

definition updates_chart :: "int \<Rightarrow> ws_data \<Rightarrow> state \<Rightarrow> bool" where
  "updates_chart t ev s =
     (let s' = onmessage t ev s in
      utscPlotImage s' \<noteq> utscPlotImage s \<or> utscSpectrumData s' \<noteq> utscSpectrumData s \<or>
      utscSciChart s' \<noteq> utscSciChart s \<or> utscSciChartSeries s' \<noteq> utscSciChartSeries s \<or>
      filter is_chart_effect (emitted s s') \<noteq> [])"

fun update_times :: "state \<Rightarrow> (int \<times> ws_data) list \<Rightarrow> int list" where
  "update_times s [] = []"
| "update_times s ((t, ev) # rest) =
     (if updates_chart t ev s then [t] else []) @ update_times (onmessage t ev s) rest"

text \<open>
  A run of the socket handling: calls of the two methods, in any order, and what the
  browser does to the sockets in between.
\<close>

datatype ws_event = CallStart env | CallStop | Opened nat | Closed nat

fun ws_step :: "ws_event \<Rightarrow> state \<Rightarrow> state" where
  "ws_step (CallStart e) s = startUtscWebSocket e s"
| "ws_step CallStop s = stopUtscWebSocket s"
| "ws_step (Opened w) s = server_opened w s"
| "ws_step (Closed w) s = server_closed w s"

fun ws_run :: "ws_event list \<Rightarrow> state \<Rightarrow> state" where
  "ws_run [] s = s"
| "ws_run (x # xs) s = ws_run xs (ws_step x s)"

text \<open>A socket that is connecting or open is held; the indices of the held sockets.\<close>

fun held :: "ws_status \<Rightarrow> bool" where
  "held CONNECTING = True"
| "held OPEN = True"
| "held CLOSING = False"
| "held CLOSED = False"

definition held_sockets :: "state \<Rightarrow> nat list" where
  "held_sockets s = filter (\<lambda>i. held (sockets s ! i)) [0..<length (sockets s)]"

subsection \<open>Reading a trace\<close>

text \<open>An outcome that is not a success response: an error was thrown, or \<open>success\<close> is false.\<close>

fun failed :: "fetch_outcome \<Rightarrow> bool" where
  "failed (Parsed r) = (\<not> success r)"
| "failed x = True"


fun is_fetch :: "effect \<Rightarrow> bool" where
  "is_fetch (Fetch r) = True"
| "is_fetch x = False"

fun is_timer :: "effect \<Rightarrow> bool" where
  "is_timer (SetTimeout i ms cb) = True"
| "is_timer (SetInterval i ms cb) = True"
| "is_timer x = False"

text \<open>
  An effect that sends something again, now or later: a request, a new socket, or a
  timer whose closure does one of the two.
\<close>

fun reissues :: "effect \<Rightarrow> bool" where
  "reissues (Fetch r) = True"
| "reissues (NewWebSocket w p) = True"
| "reissues (SetTimeout i ms cb) = (cb = PollUtscStatus \<or> cb = Reconnect \<or> cb = AutoRestart)"
| "reissues (SetInterval i ms cb) = (cb = PollUtscStatus \<or> cb = Reconnect \<or> cb = AutoRestart)"
| "reissues x = False"

fun is_toast :: "effect \<Rightarrow> bool" where
  "is_toast (Toast l m) = True"
| "is_toast x = False"

text \<open>A capture start request, by its URL.\<close>

fun is_start :: "effect \<Rightarrow> bool" where
  "is_start (Fetch r) = startsWith (url r) ''/api/pypnm/upstream/utsc/start/''"
| "is_start x = False"


text \<open>
  The period of the auto-restart interval a method has just set: its last act was
  \<open>setInterval\<close> with the closure \<open>autoRestart\<close>, and the identifier is the one
  stored in \<open>utscAutoRestartInterval\<close>.
\<close>

fun autoRestart_timer :: "nat \<Rightarrow> effect \<Rightarrow> nat option" where
  "autoRestart_timer i (SetInterval j ms AutoRestart) = (if j = i then Some ms else None)"
| "autoRestart_timer i x = None"

definition registered_period :: "state \<Rightarrow> nat option" where
  "registered_period s =
     (case utscAutoRestartInterval s of
        None \<Rightarrow> None
      | Some i \<Rightarrow> if trace s = [] then None else autoRestart_timer i (last (trace s)))"




text \<open>
  Containment of the search text without regard to case, in the words of the
  specification of the filter: some stretch of the field equals the search text once
  both are lowered.
\<close>

definition contains_ci :: "string \<Rightarrow> string \<Rightarrow> bool" where
  "contains_ci hay needle = (\<exists>pre suf. toLowerCase hay = pre @ toLowerCase needle @ suf)"

subsection \<open>Sample inputs\<close>

definition modem0 :: modem where
  "modem0 = \<lparr>mac_address = ''aa:bb:cc:dd:ee:01'', ip_address = Some ''10.0.0.5'',
     cmts_ip = Some ''172.16.6.212'', cmts_community = None, tftp_ip = None\<rparr>"

definition response0 :: response where
  "response0 = \<lparr>success = False, r_error = None, r_message = None, r_data = None,
     r_plot = None, is_ready = False, is_error = False, is_busy = False\<rparr>"

definition env0 :: env where
  "env0 = \<lparr>now = 1000, start_out = FetchFailed, stop_out = FetchFailed,
     status_out = FetchFailed, data_out = FetchFailed, ctor_ok = True, lib_loaded = True,
     init_out = Created 1 2, ws_opens = True, err_message = ''Failed to fetch''\<rparr>"

text \<open>The start and stop requests are answered, with \<open>success\<close> false.\<close>

definition env_refused :: env where
  "env_refused = env0\<lparr>start_out := Parsed response0, stop_out := Parsed response0\<rparr>"

definition cmts_a :: cmts where
  "cmts_a = \<lparr>c_name = ''E6K-Lab'', c_ip = ''172.16.6.212'', c_vendor = ''Arris'',
     c_type = ''E6000'', c_alias = []\<rparr>"

definition cmts_b :: cmts where
  "cmts_b = \<lparr>c_name = ''cbr8-east'', c_ip = ''10.1.2.3'', c_vendor = ''Cisco'',
     c_type = ''cBR-8'', c_alias = ''east''\<rparr>"

definition ready0 :: state where
  "ready0 = data0\<lparr>selectedModem := Some modem0,
     utscConfig := utscConfig0\<lparr>rfPortIfindex := Some 1078534144\<rparr>\<rparr>"


definition polling0 :: state where
  "polling0 = ready0\<lparr>runningUtsc := True\<rparr>"


definition loaded0 :: response where
  "loaded0 = response0\<lparr>success := True,
     r_data := Some \<lparr>d_message = None, d_raw_data = None\<rparr>\<rparr>"

definition all_flags :: response where
  "all_flags = response0\<lparr>is_ready := True, is_error := True, is_busy := True\<rparr>"

definition busy0 :: response where
  "busy0 = response0\<lparr>is_busy := True\<rparr>"

definition env_ok :: env where
  "env_ok = env0\<lparr>start_out := Parsed loaded0, stop_out := Parsed loaded0,
     status_out := Parsed all_flags, data_out := Parsed loaded0\<rparr>"

definition spectrum0 :: frame where
  "spectrum0 = \<lparr>f_type = Some ''spectrum'', f_buffer_size = Some 7,
     f_raw_data = Some \<lparr>frequencies = [10000000, 10025000], amplitudes = [-31, -29]\<rparr>,
     f_plot = Some \<lparr>p_data = Some ''iVBORw0KGgo='', p_filename = Some ''utsc_0001.png''\<rparr>,
     f_timestamp = Some 1769000000, f_message = None\<rparr>"

definition other_frame :: "string \<Rightarrow> frame" where
  "other_frame ty = \<lparr>f_type = Some ty, f_buffer_size = Some 3, f_raw_data = None,
     f_plot = None, f_timestamp = None, f_message = Some ''Buffering complete''\<rparr>"

text \<open>
  What a measurement request carries: the MAC address of the modem as a segment of the
  path of its URL, and a property \<open>community\<close> of its body that is a non-empty string.
\<close>

definition mac_in_path :: "modem \<Rightarrow> request \<Rightarrow> bool" where
  "mac_in_path m r = includes_str (url r) (''/'' @ mac_address m)"

definition has_community :: "request \<Rightarrow> bool" where
  "has_community r =
     (case map_of (body r) ''community'' of
        Some (JStr v) \<Rightarrow> v \<noteq> []
      | Some (JNum n) \<Rightarrow> False
      | Some (JBool b) \<Rightarrow> False
      | Some JNull \<Rightarrow> False
      | None \<Rightarrow> False)"

definition carried :: "modem \<Rightarrow> effect list \<Rightarrow> bool" where
  "carried m xs = list_all (\<lambda>x. case x of Fetch r \<Rightarrow> mac_in_path m r \<and> has_community r
                                  | _ \<Rightarrow> True) xs"

section \<open>Properties\<close>

subsection \<open>Strings\<close>

lemma startsWith_iff: "startsWith s sub \<longleftrightarrow> (\<exists>suf. s = sub @ suf)"
  by (induction s sub rule: startsWith.induct) auto

lemma includes_str_iff: "includes_str s sub \<longleftrightarrow> (\<exists>pre suf. s = pre @ sub @ suf)"
proof (induction s)
  case Nil
  then show ?case by auto
next
  case (Cons x xs)
  show ?case
  proof
    assume "includes_str (x # xs) sub"
    then consider "startsWith (x # xs) sub" | "includes_str xs sub" by auto
    then show "\<exists>pre suf. x # xs = pre @ sub @ suf"
    proof cases
      case 1
      then obtain suf where "x # xs = sub @ suf" by (auto simp: startsWith_iff)
      then have "x # xs = [] @ sub @ suf" by simp
      then show ?thesis by blast
    next
      case 2
      then obtain pre suf where "xs = pre @ sub @ suf" using Cons.IH by blast
      then have "x # xs = (x # pre) @ sub @ suf" by simp
      then show ?thesis by blast
    qed
  next
    assume "\<exists>pre suf. x # xs = pre @ sub @ suf"
    then obtain pre suf where e: "x # xs = pre @ sub @ suf" by blast
    show "includes_str (x # xs) sub"
    proof (cases pre)
      case Nil
      with e have "startsWith (x # xs) sub" by (auto simp: startsWith_iff)
      then show ?thesis by simp
    next
      case (Cons p ps)
      with e have "xs = ps @ sub @ suf" by simp
      then have "includes_str xs sub" using Cons.IH by blast
      then show ?thesis by simp
    qed
  qed
qed

lemma cmts_matches_iff:
  "cmts_matches (toLowerCase q) c \<longleftrightarrow>
     contains_ci (c_name c) q \<or> contains_ci (c_alias c) q \<or>
     contains_ci (c_ip c) q \<or> contains_ci (c_vendor c) q"
  by (simp add: cmts_matches_def contains_ci_def includes_str_iff)

subsection \<open>The CMTS filter\<close>

text \<open>
  C10. \<open>filterCmtsList\<close> sets \<open>cmtsList\<close> to exactly the entries of \<open>cmtsListFull\<close>
  whose name, alias, ip or vendor contains the search text without regard to case, and
  to the whole of \<open>cmtsListFull\<close> when the search text is empty; \<open>cmtsListFull\<close> is not
  modified, so filtering again with the search cleared restores the full list.
\<close>

theorem filterCmtsList_spec:
  "cmtsList (filterCmtsList s) =
     (if cmtsSearch s = [] then cmtsListFull s
      else filter (\<lambda>c. contains_ci (c_name c) (cmtsSearch s) \<or>
                        contains_ci (c_alias c) (cmtsSearch s) \<or>
                        contains_ci (c_ip c) (cmtsSearch s) \<or>
                        contains_ci (c_vendor c) (cmtsSearch s))
             (cmtsListFull s))
   \<and> cmtsListFull (filterCmtsList s) = cmtsListFull s
   \<and> cmtsList (filterCmtsList ((filterCmtsList s)\<lparr>cmtsSearch := []\<rparr>)) = cmtsListFull s"
  by (auto simp add: filterCmtsList_def cmts_matches_iff intro!: filter_cong)

lemma lower_samples:
  "toLowerCase ''E6K-Lab'' = ''e6k-lab''" "toLowerCase ''Arris'' = ''arris''"
  "toLowerCase ''172.16.6.212'' = ''172.16.6.212''" "toLowerCase ''cbr8-east'' = ''cbr8-east''"
  "toLowerCase ''10.1.2.3'' = ''10.1.2.3''" "toLowerCase ''Cisco'' = ''cisco''"
  "toLowerCase ''east'' = ''east''" "toLowerCase ''e6K'' = ''e6k''" "toLowerCase [] = []"
  by code_simp+

theorem filterCmtsList_spec_witness:
  "cmtsList (filterCmtsList (data0\<lparr>cmtsSearch := ''e6K'', cmtsListFull := [cmts_a, cmts_b]\<rparr>))
     = [cmts_a]
   \<and> filter (\<lambda>c. contains_ci (c_name c) ''e6K'' \<or> contains_ci (c_alias c) ''e6K'' \<or>
                   contains_ci (c_ip c) ''e6K'' \<or> contains_ci (c_vendor c) ''e6K'')
        [cmts_a, cmts_b] = [cmts_a]"
proof -
  have ev: "cmtsList (filterCmtsList (data0\<lparr>cmtsSearch := ''e6K'', cmtsListFull := [cmts_a, cmts_b]\<rparr>))
     = [cmts_a]"
    by (simp add: filterCmtsList_def cmts_matches_def cmts_a_def cmts_b_def lower_samples)
  from filterCmtsList_spec [of "data0\<lparr>cmtsSearch := ''e6K'', cmtsListFull := [cmts_a, cmts_b]\<rparr>"]
  have "cmtsList (filterCmtsList (data0\<lparr>cmtsSearch := ''e6K'', cmtsListFull := [cmts_a, cmts_b]\<rparr>))
     = filter (\<lambda>c. contains_ci (c_name c) ''e6K'' \<or> contains_ci (c_alias c) ''e6K'' \<or>
                   contains_ci (c_ip c) ''e6K'' \<or> contains_ci (c_vendor c) ''e6K'')
        [cmts_a, cmts_b]"
    by (simp del: filter.simps)
  with ev show ?thesis by (simp del: filter.simps)
qed

subsection \<open>Field and trace facts of the methods\<close>

lemma emitted_self [simp]: "emitted s s = []"
  by (simp add: emitted_def)

lemma emitted_append [simp]: "trace s' = trace s @ xs \<Longrightarrow> emitted s s' = xs"
  by (simp add: emitted_def)

lemma toast_call_eq:
  "toast_call l m s = s\<lparr>trace := trace s @ shown (toastInstalled s) l m\<rparr>"
  by (simp add: toast_call_def shown_def emit_def)

lemma toast_eq: "toast l m s = s\<lparr>trace := trace s @ shown (toastInstalled s) l (Text m)\<rparr>"
  by (simp add: toast_def toast_call_eq)

lemma shown_filters [simp]:
  "filter reissues (shown b l m) = []"
  "filter is_fetch (shown b l m) = []"
  "filter is_timer (shown b l m) = []"
  "filter is_start (shown b l m) = []"
  "filter is_chart_effect (shown b l m) = []"
  "shown False l m = []"
  "shown True l m = [Toast l m]"
  by (simp_all add: shown_def)

lemmas prim_defs = emit_def toast_eq toast_call_eq fetch_def setTimeout_def setInterval_def

subsection \<open>The data fetch\<close>

text \<open>
  C9. \<open>fetchUtscData\<close> leaves \<open>runningUtsc\<close> false on every path: the early return
  for a missing modem or CMTS IP, the loaded data, the answer without success and the
  thrown error; the same holds for the part behind its \<open>await\<close>, in whatever state it
  resumes.
\<close>

theorem fetchUtscData_clears_runningUtsc:
  "runningUtsc (fetchUtscData e s) = False \<and> runningUtsc (fetchUtscData_resume e s) = False"
  by (simp add: fetchUtscData_def fetchUtscData_resume_def split: option.splits fetch_outcome.splits)

lemma destroy_fields [simp]:
  "utscLiveMode (destroyUtscSciChart s) = utscLiveMode s"
  "runningUtsc (destroyUtscSciChart s) = runningUtsc s"
  "utscWebSocket (destroyUtscSciChart s) = utscWebSocket s"
  "utscLiveInterval (destroyUtscSciChart s) = utscLiveInterval s"
  "sockets (destroyUtscSciChart s) = sockets s"
  "selectedModem (destroyUtscSciChart s) = selectedModem s"
  "utscConfig (destroyUtscSciChart s) = utscConfig s"
  "selectedCmts (destroyUtscSciChart s) = selectedCmts s"
  "toastInstalled (destroyUtscSciChart s) = toastInstalled s"
  "utscSciChart (destroyUtscSciChart s) = None"
  by (simp_all add: destroyUtscSciChart_def emit_def split: option.splits)

lemma stopWs_fields [simp]:
  "utscLiveMode (stopUtscWebSocket s) = utscLiveMode s"
  "runningUtsc (stopUtscWebSocket s) = runningUtsc s"
  "selectedModem (stopUtscWebSocket s) = selectedModem s"
  "utscConfig (stopUtscWebSocket s) = utscConfig s"
  "selectedCmts (stopUtscWebSocket s) = selectedCmts s"
  "toastInstalled (stopUtscWebSocket s) = toastInstalled s"
  "utscWebSocket (stopUtscWebSocket s) = None"
  "utscLiveInterval (stopUtscWebSocket s) = None"
  "utscSciChart (stopUtscWebSocket s) = None"
  by (simp_all add: stopUtscWebSocket_def ws_close_def emit_def Let_def split: option.splits)

lemma startWs_fields [simp]:
  "utscLiveMode (startUtscWebSocket e s) = utscLiveMode s"
  "runningUtsc (startUtscWebSocket e s) = runningUtsc s"
  "selectedModem (startUtscWebSocket e s) = selectedModem s"
  "utscConfig (startUtscWebSocket e s) = utscConfig s"
  "selectedCmts (startUtscWebSocket e s) = selectedCmts s"
  by (simp_all add: startUtscWebSocket_def prim_defs Let_def split: option.splits)

lemma fetchUtscData_resume_fields [simp]:
  "utscLiveMode (fetchUtscData_resume e s) = utscLiveMode s"
  "selectedModem (fetchUtscData_resume e s) = selectedModem s"
  "utscConfig (fetchUtscData_resume e s) = utscConfig s"
  "selectedCmts (fetchUtscData_resume e s) = selectedCmts s"
  "toastInstalled (fetchUtscData_resume e s) = toastInstalled s"
  by (simp_all add: fetchUtscData_resume_def fetchUtscData_loaded_def
      fetchUtscData_failed_def prim_defs Let_def split: option.splits fetch_outcome.splits)

lemma fetchUtscData_fields [simp]:
  "utscLiveMode (fetchUtscData e s) = utscLiveMode s"
  "selectedModem (fetchUtscData e s) = selectedModem s"
  "utscConfig (fetchUtscData e s) = utscConfig s"
  "selectedCmts (fetchUtscData e s) = selectedCmts s"
  "toastInstalled (fetchUtscData e s) = toastInstalled s"
  by (simp_all add: fetchUtscData_def fetch_def emit_def split: option.splits)

lemma trace_fetchUtscData_resume:
  "\<exists>xs. trace (fetchUtscData_resume e s) = trace s @ xs \<and> filter reissues xs = [] \<and>
     filter is_start xs = []"
  by (simp add: fetchUtscData_resume_def fetchUtscData_loaded_def fetchUtscData_failed_def
        prim_defs Let_def split: fetch_outcome.splits option.splits)

lemma data_request_not_start [simp]:
  "\<not> startsWith (url (fetchUtscData_request m s)) ''/api/pypnm/upstream/utsc/start/''"
  by (simp add: fetchUtscData_request_def)

lemma start_request_is_start [simp]:
  "startsWith (url (startUtsc_request m c s)) ''/api/pypnm/upstream/utsc/start/''"
  by (simp add: startUtsc_request_def)


lemma startUtsc_resume_running [simp]: "runningUtsc (startUtsc_resume tid e s) = False"
  by (cases "start_out e"; simp add: startUtsc_resume_def prim_defs Let_def)



lemma trace_startUtsc_begin:
  "trace (startUtsc_begin m c s) = trace s @
     shown (toastInstalled s) Info
       (Text ''UTSC capture in progress - this may take up to 2 minutes...'') @
     [SetTimeout (nextTimer s) 180000 AbortFetch, Fetch (startUtsc_request m c s)]"
  by (simp add: startUtsc_begin_def prim_defs Let_def startUtsc_request_def)



lemma trace_stopUtsc_begin:
  "trace (stopUtsc_begin m s) = trace s @
     shown (toastInstalled s) Info (Text ''Stopping UTSC capture...'') @
     [Fetch (stopUtsc_request m s)]"
  by (simp add: stopUtsc_begin_def prim_defs Let_def stopUtsc_request_def)





subsection \<open>What a restart of the capture sends\<close>


lemma startUtsc_resume_fields [simp]:
  "utscLiveMode (startUtsc_resume tid e s) = utscLiveMode s"
  "selectedModem (startUtsc_resume tid e s) = selectedModem s"
  "utscConfig (startUtsc_resume tid e s) = utscConfig s"
  "selectedCmts (startUtsc_resume tid e s) = selectedCmts s"
  by (cases "start_out e"; simp add: startUtsc_resume_def prim_defs Let_def)+

lemma startUtsc_begin_fields [simp]:
  "utscLiveMode (startUtsc_begin m c s) = utscLiveMode s"
  "selectedModem (startUtsc_begin m c s) = selectedModem s"
  "utscConfig (startUtsc_begin m c s) = utscConfig s"
  "selectedCmts (startUtsc_begin m c s) = selectedCmts s"
  by (simp_all add: startUtsc_begin_def prim_defs Let_def)

lemma startUtsc_fields [simp]:
  "utscLiveMode (startUtsc e s) = utscLiveMode s"
  "selectedModem (startUtsc e s) = selectedModem s"
  "utscConfig (startUtsc e s) = utscConfig s"
  "selectedCmts (startUtsc e s) = selectedCmts s"
  by (simp_all add: startUtsc_def prim_defs Let_def split: option.splits)








subsection \<open>Failures of the control operations\<close>

lemma ready0_startUtsc:
  "emitted ready0 (startUtsc env0 ready0) =
     [SetTimeout 1 180000 AbortFetch,
      Fetch (startUtsc_request modem0 ''172.16.6.212'' ready0)]"
  "runningUtsc (startUtsc env0 ready0) = False"
  by (simp_all add: startUtsc_def startUtsc_begin_def startUtsc_resume_def prim_defs Let_def
      ready0_def data0_def utscConfig0_def modem0_def env0_def truthy_num_def js_or_def
      startUtsc_request_def emitted_def)

lemma ready0_stopUtsc:
  "emitted ready0 (stopUtsc env0 ready0) = [Fetch (stopUtsc_request modem0 ready0)]"
  "runningUtsc (stopUtsc env0 ready0) = False"
  by (simp_all add: stopUtsc_def stopUtsc_guard_def stopUtsc_begin_def stopUtsc_resume_def
      prim_defs Let_def ready0_def data0_def utscConfig0_def modem0_def env0_def truthy_num_def
      truthy_str_def stopUtsc_request_def emitted_def)

lemma ready0_startUtsc_refused:
  "emitted ready0 (startUtsc env_refused ready0) =
     [SetTimeout 1 180000 AbortFetch,
      Fetch (startUtsc_request modem0 ''172.16.6.212'' ready0),
      ClearTimeout 1]"
  "runningUtsc (startUtsc env_refused ready0) = False"
  by (simp_all add: startUtsc_def startUtsc_begin_def startUtsc_resume_def prim_defs Let_def
      ready0_def data0_def utscConfig0_def modem0_def env_refused_def env0_def response0_def
      truthy_num_def js_or_def startUtsc_request_def emitted_def)

lemma ready0_stopUtsc_refused:
  "emitted ready0 (stopUtsc env_refused ready0) = [Fetch (stopUtsc_request modem0 ready0)]"
  "runningUtsc (stopUtsc env_refused ready0) = False"
  by (simp_all add: stopUtsc_def stopUtsc_guard_def stopUtsc_begin_def stopUtsc_resume_def
      prim_defs Let_def ready0_def data0_def utscConfig0_def modem0_def env_refused_def env0_def
      response0_def truthy_num_def truthy_str_def js_or_def stopUtsc_request_def emitted_def)

text \<open>
  C4. The claim is that every outcome of the request of \<open>startUtsc\<close> and \<open>stopUtsc\<close>
  that is not a success response ends with an error or warning toast and with
  \<open>runningUtsc\<close> false. The notifications of these methods are calls
  \<open>this.$toast?.error(...)\<close>, and the application is mounted with no plugin that
  defines \<open>$toast\<close>. In the state of \<open>data()\<close> with a modem and an RF port selected, a
  start or stop request that is rejected, or answered with \<open>success\<close> false, leaves
  \<open>runningUtsc\<close> false, but the method shows no toast of any level: all it emits is
  its abort timer and its request.
\<close>

theorem utsc_control_failure_not_toasted:
  "toastInstalled ready0 = False
   \<and> failed (start_out env0) \<and> failed (stop_out env0)
   \<and> failed (start_out env_refused) \<and> failed (stop_out env_refused)
   \<and> emitted ready0 (startUtsc env0 ready0) =
       [SetTimeout 1 180000 AbortFetch, Fetch (startUtsc_request modem0 ''172.16.6.212'' ready0)]
   \<and> emitted ready0 (stopUtsc env0 ready0) = [Fetch (stopUtsc_request modem0 ready0)]
   \<and> emitted ready0 (startUtsc env_refused ready0) =
       [SetTimeout 1 180000 AbortFetch, Fetch (startUtsc_request modem0 ''172.16.6.212'' ready0),
        ClearTimeout 1]
   \<and> emitted ready0 (stopUtsc env_refused ready0) = [Fetch (stopUtsc_request modem0 ready0)]
   \<and> filter is_toast (emitted ready0 (startUtsc env0 ready0)) = []
   \<and> filter is_toast (emitted ready0 (stopUtsc env0 ready0)) = []
   \<and> filter is_toast (emitted ready0 (startUtsc env_refused ready0)) = []
   \<and> filter is_toast (emitted ready0 (stopUtsc env_refused ready0)) = []
   \<and> runningUtsc (startUtsc env0 ready0) = False
   \<and> runningUtsc (stopUtsc env0 ready0) = False
   \<and> runningUtsc (startUtsc env_refused ready0) = False
   \<and> runningUtsc (stopUtsc env_refused ready0) = False"
proof -
  have h: "toastInstalled ready0 = False"
    "failed (start_out env0)" "failed (stop_out env0)"
    "failed (start_out env_refused)" "failed (stop_out env_refused)"
    by (simp_all add: ready0_def data0_def env0_def env_refused_def response0_def)
  show ?thesis
    using h by (simp add: ready0_startUtsc ready0_stopUtsc ready0_startUtsc_refused
        ready0_stopUtsc_refused)
qed

subsection \<open>Retries\<close>




subsection \<open>The status poll\<close>

lemma pollUtscStatus_resume_ready:
  assumes "status_out e = Parsed r" "is_ready r"
  shows "pollUtscStatus_resume e s =
     fetchUtscData e (toast Success ''UTSC capture complete - fetching data...''
                        (s\<lparr>utscStatus := Some r, runningUtsc := False\<rparr>))"
  using assms by (simp add: pollUtscStatus_resume_def Let_def)

lemma pollUtscStatus_resume_error:
  assumes "status_out e = Parsed r" "\<not> is_ready r" "is_error r"
  shows "runningUtsc (pollUtscStatus_resume e s) = False"
    and "emitted s (pollUtscStatus_resume e s) =
           shown (toastInstalled s) Error (Text ''UTSC test failed'')"
  using assms by (simp_all add: pollUtscStatus_resume_def Let_def prim_defs emitted_def)

lemma pollUtscStatus_resume_busy:
  assumes "status_out e = Parsed r" "\<not> is_ready r" "\<not> is_error r" "is_busy r"
  shows "runningUtsc (pollUtscStatus_resume e s) = runningUtsc s"
    and "emitted s (pollUtscStatus_resume e s) = [SetTimeout (nextTimer s) 2000 PollUtscStatus]"
  using assms by (simp_all add: pollUtscStatus_resume_def Let_def prim_defs emitted_def)

text \<open>
  C6, as stated, fails: the three flags of a status answer are tested in order, so an
  answer that carries \<open>is_ready\<close> together with \<open>is_error\<close> and \<open>is_busy\<close> takes the
  first branch only. Here \<open>is_busy\<close> is true and the poll sets no timer: it sends its
  status request, then the data request of \<open>fetchUtscData\<close>, and hands the chart to
  \<open>$nextTick\<close>.
\<close>

theorem pollUtscStatus_flags_counterexample:
  "status_out env_ok = Parsed all_flags \<and> is_error all_flags \<and> is_busy all_flags \<and>
   runningUtsc polling0 \<and>
   emitted polling0 (pollUtscStatus env_ok polling0) =
     [Fetch (pollUtscStatus_request modem0 polling0),
      Fetch (fetchUtscData_request modem0 polling0),
      NextTick (InitThenShow None)] \<and>
   filter is_timer (emitted polling0 (pollUtscStatus env_ok polling0)) = []"
proof -
  have e: "emitted polling0 (pollUtscStatus env_ok polling0) =
     [Fetch (pollUtscStatus_request modem0 polling0),
      Fetch (fetchUtscData_request modem0 polling0),
      NextTick (InitThenShow None)]"
    by (simp add: pollUtscStatus_def pollUtscStatus_resume_def fetchUtscData_def
        fetchUtscData_resume_def fetchUtscData_loaded_def prim_defs Let_def emitted_def
        polling0_def ready0_def data0_def modem0_def env_ok_def env0_def all_flags_def
        loaded0_def response0_def truthy_str_def store_plot_def
        pollUtscStatus_request_def fetchUtscData_request_def)
  show ?thesis
    by (simp add: e) (simp add: env_ok_def all_flags_def polling0_def)
qed

text \<open>
  C6, amended. \<open>pollUtscStatus\<close> does nothing when \<open>runningUtsc\<close> is false; otherwise
  it sends the status request and tests the flags of the answer in order: if
  \<open>is_ready\<close> is true it clears \<open>runningUtsc\<close> and calls \<open>fetchUtscData\<close>; otherwise,
  if \<open>is_error\<close> is true it clears \<open>runningUtsc\<close>, sends no request and sets no
  timer; otherwise, if \<open>is_busy\<close> is true it sets one timer of 2000 ms that calls
  \<open>pollUtscStatus\<close> again.
\<close>

theorem pollUtscStatus_three_way:
  "(\<not> runningUtsc s \<longrightarrow> pollUtscStatus e s = s)
   \<and> (runningUtsc s \<and> selectedModem s = Some m \<longrightarrow>
        pollUtscStatus e s = pollUtscStatus_resume e (fetch (pollUtscStatus_request m s) s))
   \<and> (status_out e = Parsed r \<and> is_ready r \<longrightarrow>
        runningUtsc (pollUtscStatus_resume e s) = False \<and>
        pollUtscStatus_resume e s =
          fetchUtscData e (toast Success ''UTSC capture complete - fetching data...''
                             (s\<lparr>utscStatus := Some r, runningUtsc := False\<rparr>)))
   \<and> (status_out e = Parsed r \<and> \<not> is_ready r \<and> is_error r \<longrightarrow>
        runningUtsc (pollUtscStatus_resume e s) = False \<and>
        filter is_fetch (emitted s (pollUtscStatus_resume e s)) = [] \<and>
        filter is_timer (emitted s (pollUtscStatus_resume e s)) = [])
   \<and> (status_out e = Parsed r \<and> \<not> is_ready r \<and> \<not> is_error r \<and> is_busy r \<longrightarrow>
        runningUtsc (pollUtscStatus_resume e s) = runningUtsc s \<and>
        emitted s (pollUtscStatus_resume e s) = [SetTimeout (nextTimer s) 2000 PollUtscStatus])
   \<and> fire PollUtscStatus e s = pollUtscStatus e s"
proof -
  have a: "\<not> runningUtsc s \<longrightarrow> pollUtscStatus e s = s"
    by (simp add: pollUtscStatus_def)
  have b: "runningUtsc s \<and> selectedModem s = Some m \<longrightarrow>
        pollUtscStatus e s = pollUtscStatus_resume e (fetch (pollUtscStatus_request m s) s)"
    by (simp add: pollUtscStatus_def)
  have c: "status_out e = Parsed r \<and> is_ready r \<longrightarrow>
        runningUtsc (pollUtscStatus_resume e s) = False"
    by (simp add: pollUtscStatus_resume_ready fetchUtscData_def fetchUtscData_resume_def
        split: option.splits fetch_outcome.splits)
  show ?thesis
    using a b c pollUtscStatus_resume_ready [where e=e and r=r and s=s]
      pollUtscStatus_resume_error [where e=e and r=r and s=s]
      pollUtscStatus_resume_busy [where e=e and r=r and s=s]
    by simp
qed

theorem pollUtscStatus_three_way_witness:
  "\<not> runningUtsc ready0 \<and> pollUtscStatus env_ok ready0 = ready0 \<and>
   runningUtsc polling0 \<and> selectedModem polling0 = Some modem0 \<and>
   pollUtscStatus env_ok polling0 =
     pollUtscStatus_resume env_ok (fetch (pollUtscStatus_request modem0 polling0) polling0) \<and>
   status_out env_ok = Parsed all_flags \<and> is_ready all_flags \<and>
   runningUtsc (pollUtscStatus_resume env_ok polling0) = False \<and>
   status_out (env0\<lparr>status_out := Parsed (response0\<lparr>is_error := True\<rparr>)\<rparr>)
     = Parsed (response0\<lparr>is_error := True\<rparr>) \<and>
   runningUtsc
     (pollUtscStatus_resume (env0\<lparr>status_out := Parsed (response0\<lparr>is_error := True\<rparr>)\<rparr>) polling0)
     = False \<and>
   filter is_fetch (emitted polling0
     (pollUtscStatus_resume (env0\<lparr>status_out := Parsed (response0\<lparr>is_error := True\<rparr>)\<rparr>) polling0))
     = [] \<and>
   filter is_timer (emitted polling0
     (pollUtscStatus_resume (env0\<lparr>status_out := Parsed (response0\<lparr>is_error := True\<rparr>)\<rparr>) polling0))
     = [] \<and>
   status_out (env0\<lparr>status_out := Parsed busy0\<rparr>) = Parsed busy0 \<and> is_busy busy0 \<and>
   emitted polling0 (pollUtscStatus_resume (env0\<lparr>status_out := Parsed busy0\<rparr>) polling0)
     = [SetTimeout (nextTimer polling0) 2000 PollUtscStatus]"
proof -
  let ?ee = "env0\<lparr>status_out := Parsed (response0\<lparr>is_error := True\<rparr>)\<rparr>"
  have h: "\<not> runningUtsc ready0" "runningUtsc polling0" "selectedModem polling0 = Some modem0"
    by (simp_all add: polling0_def ready0_def data0_def)
  have r: "status_out env_ok = Parsed all_flags" "is_ready all_flags"
    by (simp_all add: env_ok_def all_flags_def response0_def)
  have q: "status_out ?ee = Parsed (response0\<lparr>is_error := True\<rparr>)"
    "\<not> is_ready (response0\<lparr>is_error := True\<rparr>)" "is_error (response0\<lparr>is_error := True\<rparr>)"
    by (simp_all add: response0_def)
  have b: "status_out (env0\<lparr>status_out := Parsed busy0\<rparr>) = Parsed busy0"
    "\<not> is_ready busy0" "\<not> is_error busy0" "is_busy busy0"
    by (simp_all add: busy0_def response0_def)
  have w1: "pollUtscStatus env_ok ready0 = ready0"
    using h pollUtscStatus_three_way [where s=ready0 and e=env_ok] by blast
  have w0: "pollUtscStatus env_ok polling0 =
     pollUtscStatus_resume env_ok (fetch (pollUtscStatus_request modem0 polling0) polling0)"
    using h pollUtscStatus_three_way [where s=polling0 and e=env_ok and m=modem0] by blast
  have w2: "runningUtsc (pollUtscStatus_resume env_ok polling0) = False"
    using r pollUtscStatus_three_way [where s=polling0 and e=env_ok and r=all_flags] by blast
  have w3: "runningUtsc (pollUtscStatus_resume ?ee polling0) = False"
    "filter is_fetch (emitted polling0 (pollUtscStatus_resume ?ee polling0)) = []"
    "filter is_timer (emitted polling0 (pollUtscStatus_resume ?ee polling0)) = []"
    using q pollUtscStatus_three_way [where s=polling0 and r="response0\<lparr>is_error := True\<rparr>"
        and e="?ee"]
    by blast+
  have w4: "emitted polling0 (pollUtscStatus_resume (env0\<lparr>status_out := Parsed busy0\<rparr>) polling0)
     = [SetTimeout (nextTimer polling0) 2000 PollUtscStatus]"
    using b pollUtscStatus_three_way [where s=polling0 and r=busy0
        and e="env0\<lparr>status_out := Parsed busy0\<rparr>"]
    by blast
  show ?thesis
    using h r q(1) b(1,4) w0 w1 w2 w3 w4 by blast
qed

subsection \<open>The auto-restart of the capture\<close>

lemma set_autoRestart_registered [simp]:
  "registered_period (set_autoRestart s) = Some 50000"
  "utscLiveMode (set_autoRestart s) = utscLiveMode s"
  "utscConfig (set_autoRestart s) = utscConfig s"
  by (simp_all add: registered_period_def set_autoRestart_def prim_defs)

lemma clear_autoRestart_fields [simp]:
  "utscLiveMode (clear_autoRestart s) = utscLiveMode s"
  "utscConfig (clear_autoRestart s) = utscConfig s"
  by (simp_all add: clear_autoRestart_def prim_defs split: option.splits)

lemma chart_fields [simp]:
  "utscLiveMode (ensureSciChartLoaded e s) = utscLiveMode s"
  "utscConfig (ensureSciChartLoaded e s) = utscConfig s"
  "utscLiveMode (initUtscSciChart e s) = utscLiveMode s"
  "utscConfig (initUtscSciChart e s) = utscConfig s"
  by (simp_all add: ensureSciChartLoaded_def initUtscSciChart_def prim_defs Let_def
      split: init_outcome.splits)



lemma stopUtsc_resume_fields [simp]:
  "utscConfig (stopUtsc_resume e s) = utscConfig s"
  by (cases "stop_out e"; simp add: stopUtsc_resume_def prim_defs Let_def)


lemma stopUtsc_begin_fields [simp]:
  "utscConfig (stopUtsc_begin m s) = utscConfig s"
  "utscLiveMode (stopUtsc_begin m s) = utscLiveMode s"
  by (simp_all add: stopUtsc_begin_def prim_defs Let_def)

lemma stopUtsc_config [simp]: "utscConfig (stopUtsc e s) = utscConfig s"
  by (simp add: stopUtsc_def prim_defs split: option.splits)



lemma await_ws_config [simp]: "utscConfig (await_ws e s) = utscConfig s"
  by (simp add: await_ws_def onopen_def server_opened_def Let_def prim_defs
      split: option.splits)
















subsection \<open>The frames of the live stream\<close>

lemma set_buffer_size_eq:
  "set_buffer_size d s =
     s\<lparr>utscBufferSize := (case f_buffer_size d of None \<Rightarrow> utscBufferSize s | Some b \<Rightarrow> b)\<rparr>"
  by (simp add: set_buffer_size_def split: option.splits)

lemma set_buffer_size_fields [simp]:
  "trace (set_buffer_size d s) = trace s"
  "utscPlotImage (set_buffer_size d s) = utscPlotImage s"
  "utscSpectrumData (set_buffer_size d s) = utscSpectrumData s"
  "utscSciChart (set_buffer_size d s) = utscSciChart s"
  "utscSciChartSeries (set_buffer_size d s) = utscSciChartSeries s"
  "utscLastUpdateTime (set_buffer_size d s) = utscLastUpdateTime s"
  "utscUpdateThrottle (set_buffer_size d s) = utscUpdateThrottle s"
  by (simp_all add: set_buffer_size_eq)

lemma apply_spectrum_fields [simp]:
  "utscLastUpdateTime (apply_spectrum d s) = utscLastUpdateTime s"
  "utscUpdateThrottle (apply_spectrum d s) = utscUpdateThrottle s"
  by (simp_all add: apply_spectrum_def Let_def emit_def split: option.splits)

lemma onmessage_throttle [simp]:
  "utscUpdateThrottle (onmessage t ev s) = utscUpdateThrottle s"
  by (cases ev) (simp_all add: onmessage_def Let_def toast_call_def emit_def)

lemma onmessage_other:
  assumes "f_type d \<noteq> Some ''spectrum''"
  shows "\<not> updates_chart t (JsonObject d) s"
    and "utscLastUpdateTime (onmessage t (JsonObject d) s) = utscLastUpdateTime s"
  using assms
  by (simp_all add: updates_chart_def onmessage_def Let_def toast_call_def emit_def emitted_def)

lemma onmessage_not_object:
  assumes "\<forall>d. ev \<noteq> JsonObject d"
  shows "onmessage t ev s = s" and "\<not> updates_chart t ev s"
  using assms by (cases ev; simp add: updates_chart_def onmessage_def)+

lemma onmessage_throttled:
  assumes "f_type d = Some ''spectrum''" "t - utscLastUpdateTime s < utscUpdateThrottle s"
  shows "onmessage t (JsonObject d) s = set_buffer_size d s"
    and "\<not> updates_chart t (JsonObject d) s"
  using assms by (simp_all add: updates_chart_def onmessage_def Let_def)

lemma onmessage_applied:
  assumes "f_type d = Some ''spectrum''" "\<not> t - utscLastUpdateTime s < utscUpdateThrottle s"
  shows "onmessage t (JsonObject d) s = apply_spectrum d ((set_buffer_size d s)\<lparr>utscLastUpdateTime := t\<rparr>)"
    and "utscLastUpdateTime (onmessage t (JsonObject d) s) = t"
  using assms by (simp_all add: onmessage_def Let_def)

lemma updates_chart_only_if:
  assumes "updates_chart t ev s"
  shows "(\<exists>d. ev = JsonObject d \<and> f_type d = Some ''spectrum'') \<and>
     utscUpdateThrottle s \<le> t - utscLastUpdateTime s \<and>
     utscLastUpdateTime (onmessage t ev s) = t"
proof (cases "\<exists>d. ev = JsonObject d")
  case False
  then show ?thesis using assms onmessage_not_object(2) by blast
next
  case True
  then obtain d where d: "ev = JsonObject d" by blast
  show ?thesis
  proof (cases "f_type d = Some ''spectrum''")
    case False
    then show ?thesis using assms d onmessage_other(1) by blast
  next
    case sp: True
    show ?thesis
    proof (cases "t - utscLastUpdateTime s < utscUpdateThrottle s")
      case True
      then show ?thesis using assms d sp onmessage_throttled(2) by blast
    next
      case False
      then show ?thesis using d sp onmessage_applied(2) [of d t s] by simp
    qed
  qed
qed

lemma onmessage_last:
  "utscLastUpdateTime (onmessage t ev s) = utscLastUpdateTime s \<or>
   (utscLastUpdateTime (onmessage t ev s) = t \<and> utscUpdateThrottle s \<le> t - utscLastUpdateTime s)"
proof (cases "\<exists>d. ev = JsonObject d")
  case False
  then show ?thesis using onmessage_not_object(1) [of ev t s] by simp
next
  case True
  then obtain d where d: "ev = JsonObject d" by blast
  show ?thesis
  proof (cases "f_type d = Some ''spectrum''")
    case False
    then show ?thesis using d onmessage_other(2) by blast
  next
    case sp: True
    show ?thesis
    proof (cases "t - utscLastUpdateTime s < utscUpdateThrottle s")
      case True
      then show ?thesis using d sp onmessage_throttled(1) [of d t s] by simp
    next
      case False
      then show ?thesis using d sp onmessage_applied(2) [of d t s] by simp
    qed
  qed
qed

lemma onmessage_last_mono:
  "0 \<le> utscUpdateThrottle s \<Longrightarrow> utscLastUpdateTime s \<le> utscLastUpdateTime (onmessage t ev s)"
  using onmessage_last [of t ev s] by auto

lemma update_times_after:
  "0 \<le> utscUpdateThrottle s \<Longrightarrow>
   \<forall>x \<in> set (update_times s evs). utscUpdateThrottle s \<le> x - utscLastUpdateTime s"
proof (induction evs arbitrary: s)
  case Nil
  then show ?case by simp
next
  case (Cons p evs)
  obtain t ev where p: "p = (t, ev)" by (cases p)
  have thr: "0 \<le> utscUpdateThrottle (onmessage t ev s)" using Cons.prems by simp
  have rest: "\<forall>x \<in> set (update_times (onmessage t ev s) evs).
      utscUpdateThrottle s \<le> x - utscLastUpdateTime (onmessage t ev s)"
    using Cons.IH [OF thr] by simp
  have mono: "utscLastUpdateTime s \<le> utscLastUpdateTime (onmessage t ev s)"
    using onmessage_last_mono [OF Cons.prems] .
  have hd: "updates_chart t ev s \<longrightarrow> utscUpdateThrottle s \<le> t - utscLastUpdateTime s"
    using updates_chart_only_if by blast
  show ?case using rest mono hd by (auto simp add: p)
qed

lemma update_times_spaced:
  "0 \<le> utscUpdateThrottle s \<Longrightarrow>
   sorted_wrt (\<lambda>a b. utscUpdateThrottle s \<le> b - a) (update_times s evs)"
proof (induction evs arbitrary: s)
  case Nil
  then show ?case by simp
next
  case (Cons p evs)
  obtain t ev where p: "p = (t, ev)" by (cases p)
  have thr: "0 \<le> utscUpdateThrottle (onmessage t ev s)" using Cons.prems by simp
  have rest: "sorted_wrt (\<lambda>a b. utscUpdateThrottle s \<le> b - a) (update_times (onmessage t ev s) evs)"
    using Cons.IH [OF thr] by simp
  have after: "\<forall>x \<in> set (update_times (onmessage t ev s) evs).
      utscUpdateThrottle s \<le> x - utscLastUpdateTime (onmessage t ev s)"
    using update_times_after [OF thr] by simp
  show ?case
  proof (cases "updates_chart t ev s")
    case False
    then show ?thesis using rest by (simp add: p)
  next
    case True
    then have "utscLastUpdateTime (onmessage t ev s) = t"
      using updates_chart_only_if by blast
    then show ?thesis using True rest after by (simp add: p)
  qed
qed

subsection \<open>The throttle\<close>

text \<open>
  C3. With \<open>utscUpdateThrottle\<close> at 100 ms, a frame updates the chart or the plot image
  only if it is a \<open>spectrum\<close> frame and at least 100 ms have passed since the last
  applied update; a \<open>spectrum\<close> frame that arrives sooner only sets the buffer size
  and updates nothing; and in every run of the stream any two updates, in the order
  of their arrival, are at least 100 ms apart.
\<close>

theorem chart_updates_throttled:
  assumes "utscUpdateThrottle s = 100"
  shows "(updates_chart t ev s \<longrightarrow>
            (\<exists>d. ev = JsonObject d \<and> f_type d = Some ''spectrum'') \<and>
            100 \<le> t - utscLastUpdateTime s \<and> utscLastUpdateTime (onmessage t ev s) = t)
   \<and> (f_type d = Some ''spectrum'' \<and> t - utscLastUpdateTime s < 100 \<longrightarrow>
         onmessage t (JsonObject d) s = set_buffer_size d s \<and>
         \<not> updates_chart t (JsonObject d) s)
   \<and> sorted_wrt (\<lambda>a b. 100 \<le> b - a) (update_times s evs)"
proof -
  have a: "updates_chart t ev s \<longrightarrow>
            (\<exists>d. ev = JsonObject d \<and> f_type d = Some ''spectrum'') \<and>
            100 \<le> t - utscLastUpdateTime s \<and> utscLastUpdateTime (onmessage t ev s) = t"
    using updates_chart_only_if [of t ev s] assms by simp
  have b: "f_type d = Some ''spectrum'' \<and> t - utscLastUpdateTime s < 100 \<longrightarrow>
         onmessage t (JsonObject d) s = set_buffer_size d s \<and>
         \<not> updates_chart t (JsonObject d) s"
    using onmessage_throttled [of d t s] assms by simp
  have c: "sorted_wrt (\<lambda>a b. 100 \<le> b - a) (update_times s evs)"
    using update_times_spaced [of s evs] assms by simp
  show ?thesis using a b c by blast
qed

lemma spectrum0_first:
  "updates_chart 1000 (JsonObject spectrum0) data0"
  by (simp add: updates_chart_def onmessage_def set_buffer_size_def apply_spectrum_def
      Let_def emit_def emitted_def spectrum0_def data0_def)

lemma spectrum0_run:
  "update_times data0
     [(1000, JsonObject spectrum0), (1050, JsonObject spectrum0), (1100, JsonObject spectrum0)]
   = [1000, 1100]"
  by (simp add: updates_chart_def onmessage_def set_buffer_size_def apply_spectrum_def
      Let_def emit_def emitted_def spectrum0_def data0_def)

theorem chart_updates_throttled_witness:
  "utscUpdateThrottle data0 = 100 \<and>
   updates_chart 1000 (JsonObject spectrum0) data0 \<and>
   100 \<le> 1000 - utscLastUpdateTime data0 \<and>
   f_type spectrum0 = Some ''spectrum'' \<and>
   1050 - utscLastUpdateTime (onmessage 1000 (JsonObject spectrum0) data0) < 100 \<and>
   \<not> updates_chart 1050 (JsonObject spectrum0) (onmessage 1000 (JsonObject spectrum0) data0) \<and>
   update_times data0
     [(1000, JsonObject spectrum0), (1050, JsonObject spectrum0), (1100, JsonObject spectrum0)]
     = [1000, 1100] \<and>
   sorted_wrt (\<lambda>a b. 100 \<le> b - a)
     (update_times data0
        [(1000, JsonObject spectrum0), (1050, JsonObject spectrum0), (1100, JsonObject spectrum0)])"
proof -
  have thr: "utscUpdateThrottle data0 = 100"
    "utscUpdateThrottle (onmessage 1000 (JsonObject spectrum0) data0) = 100"
    by (simp_all add: data0_def)
  have sp: "f_type spectrum0 = Some ''spectrum''"
    by (simp add: spectrum0_def)
  have w1: "100 \<le> 1000 - utscLastUpdateTime data0 \<and>
     utscLastUpdateTime (onmessage 1000 (JsonObject spectrum0) data0) = 1000"
    using spectrum0_first
      chart_updates_throttled [OF thr(1), where t=1000 and ev="JsonObject spectrum0"]
    by blast
  then have soon: "1050 - utscLastUpdateTime (onmessage 1000 (JsonObject spectrum0) data0) < 100"
    by simp
  have w2: "\<not> updates_chart 1050 (JsonObject spectrum0) (onmessage 1000 (JsonObject spectrum0) data0)"
    using sp soon chart_updates_throttled [OF thr(2), where t=1050 and d=spectrum0]
    by blast
  have w3: "sorted_wrt (\<lambda>a b. 100 \<le> b - a)
     (update_times data0
        [(1000, JsonObject spectrum0), (1050, JsonObject spectrum0), (1100, JsonObject spectrum0)])"
    using chart_updates_throttled [OF thr(1)] by blast
  show ?thesis
    using thr(1) spectrum0_first w1 sp soon w2 w3 spectrum0_run by blast
qed

subsection \<open>The dispatch on the type of a frame\<close>

lemma apply_spectrum_plot:
  "f_plot d = Some p \<Longrightarrow>
   utscPlotImage (apply_spectrum d s) =
     Some \<lparr>pi_data = p_data p, pi_filename = p_filename p, pi_timestamp = f_timestamp d\<rparr>"
  by (simp add: apply_spectrum_def Let_def emit_def split: option.splits)

lemma apply_spectrum_chart:
  "f_raw_data d = Some raw \<Longrightarrow> utscInteractive s \<Longrightarrow>
   NextTick (UpdateUtscSciChart raw) \<in> set (trace (apply_spectrum d s))"
  by (simp add: apply_spectrum_def Let_def emit_def split: option.splits)

lemma apply_spectrum_trace:
  "\<exists>xs. trace (apply_spectrum d s) = trace s @ xs \<and>
     (\<forall>raw. f_raw_data d = Some raw \<and> utscInteractive s \<longrightarrow> NextTick (UpdateUtscSciChart raw) \<in> set xs)"
  by (simp add: apply_spectrum_def Let_def emit_def split: option.splits)

text \<open>
  C5. The handler dispatches on the \<open>type\<close> of a frame. Only a \<open>spectrum\<close> frame
  updates the chart or the stored plot image: behind the throttle it hands its
  \<open>raw_data\<close> to the chart and stores its \<open>plot\<close>. A \<open>buffering\<close> or \<open>heartbeat\<close>
  frame sets the buffer size and nothing else, a \<open>buffering_complete\<close> frame calls
  the success toast, which shows where \<open>$toast\<close> is defined, and nothing else, and an \<open>error\<close> or \<open>connected\<close> frame, a message that is
  not JSON and a JSON value that is no object leave the state as it is.
\<close>

theorem onmessage_dispatch:
  "(updates_chart t ev s \<longrightarrow> (\<exists>d. ev = JsonObject d \<and> f_type d = Some ''spectrum''))
   \<and> (f_type d = Some ''spectrum'' \<and> \<not> t - utscLastUpdateTime s < utscUpdateThrottle s \<longrightarrow>
        onmessage t (JsonObject d) s
          = apply_spectrum d ((set_buffer_size d s)\<lparr>utscLastUpdateTime := t\<rparr>) \<and>
        (\<forall>p. f_plot d = Some p \<longrightarrow>
           utscPlotImage (onmessage t (JsonObject d) s) =
             Some \<lparr>pi_data = p_data p, pi_filename = p_filename p,
                   pi_timestamp = f_timestamp d\<rparr>) \<and>
        (\<forall>raw. f_raw_data d = Some raw \<and> utscInteractive s \<longrightarrow>
           NextTick (UpdateUtscSciChart raw) \<in> set (emitted s (onmessage t (JsonObject d) s))))
   \<and> (f_type d = Some ''buffering'' \<or> f_type d = Some ''heartbeat'' \<longrightarrow>
        onmessage t (JsonObject d) s =
          s\<lparr>utscBufferSize := (case f_buffer_size d of None \<Rightarrow> utscBufferSize s | Some b \<Rightarrow> b)\<rparr>)
   \<and> (f_type d = Some ''buffering_complete'' \<longrightarrow>
        onmessage t (JsonObject d) s =
          (if toastInstalled s
           then emit (Toast Success (case f_message d of None \<Rightarrow> Undefined | Some m \<Rightarrow> Text m)) s
           else s))
   \<and> (f_type d = Some ''error'' \<or> f_type d = Some ''connected'' \<longrightarrow>
        onmessage t (JsonObject d) s = s)
   \<and> onmessage t Unparseable s = s \<and> onmessage t JsonNull s = s \<and> onmessage t JsonScalar s = s"
proof -
  have a: "updates_chart t ev s \<longrightarrow> (\<exists>d. ev = JsonObject d \<and> f_type d = Some ''spectrum'')"
    using updates_chart_only_if by blast
  have b: "f_type d = Some ''spectrum'' \<and> \<not> t - utscLastUpdateTime s < utscUpdateThrottle s \<longrightarrow>
        onmessage t (JsonObject d) s
          = apply_spectrum d ((set_buffer_size d s)\<lparr>utscLastUpdateTime := t\<rparr>)"
    using onmessage_applied(1) by blast
  have b1: "f_type d = Some ''spectrum'' \<and> \<not> t - utscLastUpdateTime s < utscUpdateThrottle s \<longrightarrow>
        (\<forall>p. f_plot d = Some p \<longrightarrow>
           utscPlotImage (onmessage t (JsonObject d) s) =
             Some \<lparr>pi_data = p_data p, pi_filename = p_filename p,
                   pi_timestamp = f_timestamp d\<rparr>)"
    using onmessage_applied(1) [of d t s] by (simp add: apply_spectrum_plot)
  have b2: "f_type d = Some ''spectrum'' \<and> \<not> t - utscLastUpdateTime s < utscUpdateThrottle s \<longrightarrow>
        (\<forall>raw. f_raw_data d = Some raw \<and> utscInteractive s \<longrightarrow>
           NextTick (UpdateUtscSciChart raw) \<in> set (emitted s (onmessage t (JsonObject d) s)))"
  proof -
    obtain xs where xs:
      "trace (apply_spectrum d ((set_buffer_size d s)\<lparr>utscLastUpdateTime := t\<rparr>))
         = trace ((set_buffer_size d s)\<lparr>utscLastUpdateTime := t\<rparr>) @ xs"
      "\<forall>raw. f_raw_data d = Some raw \<and> utscInteractive ((set_buffer_size d s)\<lparr>utscLastUpdateTime := t\<rparr>)
          \<longrightarrow> NextTick (UpdateUtscSciChart raw) \<in> set xs"
      using apply_spectrum_trace by blast
    have i: "utscInteractive ((set_buffer_size d s)\<lparr>utscLastUpdateTime := t\<rparr>) = utscInteractive s"
      by (simp add: set_buffer_size_eq)
    show ?thesis
      using xs onmessage_applied(1) [of d t s] by (simp add: i emitted_def)
  qed
  have c: "f_type d = Some ''buffering'' \<or> f_type d = Some ''heartbeat'' \<longrightarrow>
        onmessage t (JsonObject d) s =
          s\<lparr>utscBufferSize := (case f_buffer_size d of None \<Rightarrow> utscBufferSize s | Some b \<Rightarrow> b)\<rparr>"
    by (auto simp add: onmessage_def set_buffer_size_eq)
  have e: "f_type d = Some ''buffering_complete'' \<longrightarrow>
        onmessage t (JsonObject d) s =
          (if toastInstalled s
           then emit (Toast Success (case f_message d of None \<Rightarrow> Undefined | Some m \<Rightarrow> Text m)) s
           else s)"
    by (simp add: onmessage_def toast_call_def)
  have f: "f_type d = Some ''error'' \<or> f_type d = Some ''connected'' \<longrightarrow>
        onmessage t (JsonObject d) s = s"
    by (auto simp add: onmessage_def)
  have g: "onmessage t Unparseable s = s" "onmessage t JsonNull s = s" "onmessage t JsonScalar s = s"
    by (simp_all add: onmessage_def)
  show ?thesis using a b b1 b2 c e f g by blast
qed

theorem onmessage_dispatch_witness:
  "updates_chart 1000 (JsonObject spectrum0) data0 \<and>
   f_type spectrum0 = Some ''spectrum'' \<and>
   \<not> 1000 - utscLastUpdateTime data0 < utscUpdateThrottle data0 \<and>
   utscPlotImage (onmessage 1000 (JsonObject spectrum0) data0) =
     Some \<lparr>pi_data = Some ''iVBORw0KGgo='', pi_filename = Some ''utsc_0001.png'',
           pi_timestamp = Some 1769000000\<rparr> \<and>
   NextTick (UpdateUtscSciChart \<lparr>frequencies = [10000000, 10025000], amplitudes = [-31, -29]\<rparr>)
     \<in> set (emitted data0 (onmessage 1000 (JsonObject spectrum0) data0)) \<and>
   onmessage 5 (JsonObject (other_frame ''heartbeat'')) data0 = data0\<lparr>utscBufferSize := 3\<rparr> \<and>
   onmessage 5 (JsonObject (other_frame ''buffering'')) data0 = data0\<lparr>utscBufferSize := 3\<rparr> \<and>
   onmessage 5 (JsonObject (other_frame ''buffering_complete'')) data0 = data0 \<and>
   onmessage 5 (JsonObject (other_frame ''buffering_complete'')) (data0\<lparr>toastInstalled := True\<rparr>)
     = emit (Toast Success (Text ''Buffering complete'')) (data0\<lparr>toastInstalled := True\<rparr>) \<and>
   onmessage 5 (JsonObject (other_frame ''error'')) data0 = data0 \<and>
   onmessage 5 (JsonObject (other_frame ''connected'')) data0 = data0"
proof -
  have h: "f_type spectrum0 = Some ''spectrum''"
    "\<not> 1000 - utscLastUpdateTime data0 < utscUpdateThrottle data0"
    "f_plot spectrum0 = Some \<lparr>p_data = Some ''iVBORw0KGgo='', p_filename = Some ''utsc_0001.png''\<rparr>"
    "f_raw_data spectrum0 = Some \<lparr>frequencies = [10000000, 10025000], amplitudes = [-31, -29]\<rparr>"
    "f_timestamp spectrum0 = Some 1769000000"
    "utscInteractive data0"
    by (simp_all add: spectrum0_def data0_def)
  have o: "f_type (other_frame ''heartbeat'') = Some ''heartbeat''"
    "f_type (other_frame ''buffering'') = Some ''buffering''"
    "f_type (other_frame ''buffering_complete'') = Some ''buffering_complete''"
    "f_type (other_frame ''error'') = Some ''error''"
    "f_type (other_frame ''connected'') = Some ''connected''"
    by (simp_all add: other_frame_def)
  have w1: "utscPlotImage (onmessage 1000 (JsonObject spectrum0) data0) =
     Some \<lparr>pi_data = Some ''iVBORw0KGgo='', pi_filename = Some ''utsc_0001.png'',
           pi_timestamp = Some 1769000000\<rparr>"
  proof -
    have "\<forall>p. f_plot spectrum0 = Some p \<longrightarrow>
           utscPlotImage (onmessage 1000 (JsonObject spectrum0) data0) =
             Some \<lparr>pi_data = p_data p, pi_filename = p_filename p,
                   pi_timestamp = f_timestamp spectrum0\<rparr>"
      using h(1,2) onmessage_dispatch [where t=1000 and d=spectrum0 and s=data0] by blast
    from this [rule_format, OF h(3)] show ?thesis by (simp add: h(5))
  qed
  have w2: "NextTick (UpdateUtscSciChart \<lparr>frequencies = [10000000, 10025000], amplitudes = [-31, -29]\<rparr>)
     \<in> set (emitted data0 (onmessage 1000 (JsonObject spectrum0) data0))"
    using h onmessage_dispatch [where t=1000 and d=spectrum0 and s=data0] by blast
  have w3: "onmessage 5 (JsonObject (other_frame ''heartbeat'')) data0 = data0\<lparr>utscBufferSize := 3\<rparr>"
    using o(1) onmessage_dispatch [where t=5 and d="other_frame ''heartbeat''" and s=data0]
    by (simp add: other_frame_def)
  have w4: "onmessage 5 (JsonObject (other_frame ''buffering'')) data0 = data0\<lparr>utscBufferSize := 3\<rparr>"
    using o(2) onmessage_dispatch [where t=5 and d="other_frame ''buffering''" and s=data0]
    by (simp add: other_frame_def)
  have w5: "onmessage 5 (JsonObject (other_frame ''buffering_complete'')) data0 = data0"
    using o(3) onmessage_dispatch [where t=5 and d="other_frame ''buffering_complete''" and s=data0]
    by (simp add: data0_def)
  have w5': "onmessage 5 (JsonObject (other_frame ''buffering_complete''))
       (data0\<lparr>toastInstalled := True\<rparr>)
     = emit (Toast Success (Text ''Buffering complete'')) (data0\<lparr>toastInstalled := True\<rparr>)"
    using o(3) onmessage_dispatch [where t=5 and d="other_frame ''buffering_complete''"
        and s="data0\<lparr>toastInstalled := True\<rparr>"]
    by (simp add: other_frame_def)
  have w6: "onmessage 5 (JsonObject (other_frame ''error'')) data0 = data0"
    using o(4) onmessage_dispatch [where t=5 and d="other_frame ''error''" and s=data0]
    by blast
  have w7: "onmessage 5 (JsonObject (other_frame ''connected'')) data0 = data0"
    using o(5) onmessage_dispatch [where t=5 and d="other_frame ''connected''" and s=data0]
    by blast
  show ?thesis
    using spectrum0_first h(1,2) w1 w2 w3 w4 w5 w5' w6 w7 by blast
qed


subsection \<open>The measurement requests\<close>

lemma js_or_nonempty: "d \<noteq> [] \<Longrightarrow> js_or v d \<noteq> []"
  by (simp add: js_or_def split: option.splits)

lemma includes_segment: "includes_str (p @ ''/'' @ m @ q) (''/'' @ m)"
proof -
  have "p @ ''/'' @ m @ q = p @ (''/'' @ m) @ q" by simp
  then show ?thesis unfolding includes_str_iff by blast
qed

lemma community_cmts_lookup:
  "map_of (xs @ community_cmts m d) ''community''
     = (case map_of xs ''community'' of None \<Rightarrow> Some (JStr (js_or (cmts_community m) d)) | Some v \<Rightarrow> Some v)"
  by (simp add: community_cmts_def map_add_def split: option.splits)

lemma opt_field_lookup [simp]:
  "k \<noteq> ''community'' \<Longrightarrow> map_of (opt_field k v) ''community'' = None"
  by (simp add: opt_field_def split: option.splits)

lemma community_of_requests:
  "map_of (body (loadSystemInfo_request m s)) ''community''
     = Some (JStr (js_or (Some (snmpCommunityModem s)) ''z1gg0m0n1t0r1ng''))"
  "map_of (body (loadChannelStats_request m s)) ''community''
     = Some (JStr (js_or (Some (snmpCommunityModem s)) ''z1gg0m0n1t0r1ng''))"
  "map_of (body (loadEventLog_request m s)) ''community''
     = Some (JStr (js_or (Some (snmpCommunityModem s)) ''z1gg0m0n1t0r1ng''))"
  "map_of (body (runPnmMeasurement_request mt m s)) ''community''
     = Some (JStr (js_or (Some (snmpCommunityModem s)) ''z1gg0m0n1t0r1ng''))"
  "map_of (body (configureUtsc_request m s)) ''community''
     = Some (JStr (js_or (cmts_community m) ''Z1gg0@LL''))"
  "map_of (body (startUtsc_request m c s)) ''community''
     = Some (JStr (js_or (cmts_community m) ''Z1gg0Sp3c1@l''))"
  "map_of (body (stopUtsc_request m s)) ''community''
     = Some (JStr (js_or (cmts_community m) ''Z1gg0Sp3c1@l''))"
  "map_of (body (pollUtscStatus_request m s)) ''community''
     = Some (JStr (js_or (cmts_community m) ''Z1gg0@LL''))"
  "map_of (body (fetchUtscData_request m s)) ''community''
     = Some (JStr (js_or (cmts_community m) ''Z1gg0Sp3c1@l''))"
  "map_of (body (startUsRxmer_request m s)) ''community''
     = Some (JStr (js_or (cmts_community m) ''Z1gg0@LL''))"
  "map_of (body (pollUsRxmerStatus_request m s)) ''community''
     = Some (JStr (js_or (cmts_community m) ''Z1gg0@LL''))"
  "map_of (body (fetchUsRxmerData_request m s)) ''community''
     = Some (JStr (js_or (cmts_community m) ''Z1gg0@LL''))"
  by (simp_all add: loadSystemInfo_request_def loadChannelStats_request_def
      loadEventLog_request_def runPnmMeasurement_request_def configureUtsc_request_def
      startUtsc_request_def stopUtsc_request_def pollUtscStatus_request_def
      fetchUtscData_request_def startUsRxmer_request_def pollUsRxmerStatus_request_def
      fetchUsRxmerData_request_def community_modem_def community_cmts_def map_add_def
      split: option.splits)

lemma mac_of_requests:
  "mac_in_path m (loadSystemInfo_request m s)"
  "mac_in_path m (loadChannelStats_request m s)"
  "mac_in_path m (loadEventLog_request m s)"
  "mac_in_path m (runPnmMeasurement_request mt m s)"
  "mac_in_path m (configureUtsc_request m s)"
  "mac_in_path m (startUtsc_request m c s)"
  "mac_in_path m (stopUtsc_request m s)"
  "mac_in_path m (pollUtscStatus_request m s)"
  "mac_in_path m (fetchUtscData_request m s)"
  "mac_in_path m (startUsRxmer_request m s)"
  "mac_in_path m (pollUsRxmerStatus_request m s)"
  "mac_in_path m (fetchUsRxmerData_request m s)"
  "mac_in_path m (loadUpstreamInterfaces_request m)"
  using includes_segment [of "''/api/pypnm/modem''" "mac_address m" "''/channel-stats''"]
    includes_segment [of "''/api/pypnm/channel-stats''" "mac_address m" "[]"]
    includes_segment [of "''/api/pypnm/modem''" "mac_address m" "''/event-log''"]
    includes_segment [of "''/api/pypnm/measurements/'' @ mt" "mac_address m" "[]"]
    includes_segment [of "''/api/pypnm/upstream/utsc/configure''" "mac_address m" "[]"]
    includes_segment [of "''/api/pypnm/upstream/utsc/start''" "mac_address m" "[]"]
    includes_segment [of "''/api/pypnm/upstream/utsc/stop''" "mac_address m" "[]"]
    includes_segment [of "''/api/pypnm/upstream/utsc/status''" "mac_address m" "[]"]
    includes_segment [of "''/api/pypnm/upstream/utsc/data''" "mac_address m" "[]"]
    includes_segment [of "''/api/pypnm/upstream/rxmer/start''" "mac_address m" "[]"]
    includes_segment [of "''/api/pypnm/upstream/rxmer/status''" "mac_address m" "[]"]
    includes_segment [of "''/api/pypnm/upstream/rxmer/data''" "mac_address m" "[]"]
    includes_segment [of "''/api/pypnm/upstream/discover-rf-port''" "mac_address m" "[]"]
  by (simp_all add: mac_in_path_def loadSystemInfo_request_def loadChannelStats_request_def
      loadEventLog_request_def runPnmMeasurement_request_def configureUtsc_request_def
      startUtsc_request_def stopUtsc_request_def pollUtscStatus_request_def
      fetchUtscData_request_def startUsRxmer_request_def pollUsRxmerStatus_request_def
      fetchUsRxmerData_request_def loadUpstreamInterfaces_request_def del: includes_str.simps)

lemma has_community_requests:
  "has_community (loadSystemInfo_request m s)"
  "has_community (loadChannelStats_request m s)"
  "has_community (loadEventLog_request m s)"
  "has_community (runPnmMeasurement_request mt m s)"
  "has_community (configureUtsc_request m s)"
  "has_community (startUtsc_request m c s)"
  "has_community (stopUtsc_request m s)"
  "has_community (pollUtscStatus_request m s)"
  "has_community (fetchUtscData_request m s)"
  "has_community (startUsRxmer_request m s)"
  "has_community (pollUsRxmerStatus_request m s)"
  "has_community (fetchUsRxmerData_request m s)"
  by (simp_all add: has_community_def community_of_requests js_or_nonempty)

lemma discovery_no_community:
  "map_of (body (loadUpstreamInterfaces_request m)) ''community'' = None"
  "\<not> has_community (loadUpstreamInterfaces_request m)"
  by (simp_all add: loadUpstreamInterfaces_request_def has_community_def)

lemma carried_simps [simp]:
  "carried m []"
  "carried m (xs @ ys) = (carried m xs \<and> carried m ys)"
  "carried m (Fetch r # xs) = (mac_in_path m r \<and> has_community r \<and> carried m xs)"
  "carried m (Toast l t # xs) = carried m xs"
  "carried m (SetTimeout i ms cb # xs) = carried m xs"
  "carried m (ClearTimeout i # xs) = carried m xs"
  "carried m (shown b l t)"
  by (simp_all add: carried_def shown_def)

lemma no_reissue_carried: "filter reissues xs = [] \<Longrightarrow> carried m xs"
proof (induction xs)
  case Nil
  then show ?case by simp
next
  case (Cons x xs)
  then show ?case by (cases x) (simp_all add: carried_def split: if_splits)
qed

lemma fetchUtscData_carried:
  assumes "selectedModem s = Some m"
  shows "\<exists>xs. trace (fetchUtscData e s) = trace s @ xs \<and> carried m xs"
proof (cases "truthy_str (cmts_ip m)")
  case False
  then show ?thesis using assms by (simp add: fetchUtscData_def)
next
  case True
  obtain xs where "trace (fetchUtscData_resume e (fetch (fetchUtscData_request m s) s))
      = trace (fetch (fetchUtscData_request m s) s) @ xs" "filter reissues xs = []"
    using trace_fetchUtscData_resume by blast
  then show ?thesis using assms True
    by (simp add: fetchUtscData_def fetch_def emit_def no_reissue_carried
        mac_of_requests has_community_requests)
qed

lemma startUtsc_resume_carried:
  assumes "selectedModem s = Some m"
  shows "\<exists>xs. trace (startUtsc_resume tid e s) = trace s @ xs \<and> carried m xs"
proof (cases "start_out e")
  case (Parsed r)
  show ?thesis
  proof (cases "success r")
    case True
    have sel: "selectedModem (setTimeout 2000 Resolve
         (toast Info (js_or (case r_data r of None \<Rightarrow> None | Some d \<Rightarrow> d_message d)
                        ''UTSC completed'' @ '' - fetching spectrum data...'')
            (emit (ClearTimeout tid) s))) = Some m"
      using assms by (simp add: prim_defs)
    obtain xs where
      "trace (fetchUtscData e (setTimeout 2000 Resolve
         (toast Info (js_or (case r_data r of None \<Rightarrow> None | Some d \<Rightarrow> d_message d)
                        ''UTSC completed'' @ '' - fetching spectrum data...'')
            (emit (ClearTimeout tid) s))))
       = trace (setTimeout 2000 Resolve
         (toast Info (js_or (case r_data r of None \<Rightarrow> None | Some d \<Rightarrow> d_message d)
                        ''UTSC completed'' @ '' - fetching spectrum data...'')
            (emit (ClearTimeout tid) s))) @ xs" "carried m xs"
      using fetchUtscData_carried [OF sel] by blast
    then show ?thesis using Parsed True by (simp add: startUtsc_resume_def Let_def prim_defs)
  next
    case False
    then show ?thesis using Parsed by (simp add: startUtsc_resume_def Let_def prim_defs)
  qed
qed (simp_all add: startUtsc_resume_def prim_defs)

lemma startUtsc_carried:
  assumes "selectedModem s = Some m"
  shows "carried m (emitted s (startUtsc e s))"
proof (cases "truthy_num (rfPortIfindex (utscConfig s)) \<and> js_or (cmts_ip m) (selectedCmts s) \<noteq> []")
  case False
  then show ?thesis using assms by (auto simp add: startUtsc_def prim_defs Let_def emitted_def)
next
  case True
  have sel: "selectedModem (startUtsc_begin m (js_or (cmts_ip m) (selectedCmts s)) s) = Some m"
    using assms by (simp add: startUtsc_begin_def prim_defs Let_def)
  obtain xs where
    "trace (startUtsc_resume (nextTimer s) e (startUtsc_begin m (js_or (cmts_ip m) (selectedCmts s)) s))
     = trace (startUtsc_begin m (js_or (cmts_ip m) (selectedCmts s)) s) @ xs" "carried m xs"
    using startUtsc_resume_carried [OF sel] by blast
  then show ?thesis using assms True
    by (simp add: startUtsc_def Let_def trace_startUtsc_begin emitted_def
        mac_of_requests has_community_requests)
qed

lemma stopUtsc_resume_carried:
  "\<exists>xs. trace (stopUtsc_resume e s) = trace s @ xs \<and> carried m xs"
  by (cases "stop_out e";
      simp add: stopUtsc_resume_def stopUtscWebSocket_def destroyUtscSciChart_def ws_close_def
        prim_defs Let_def carried_def shown_def split: option.splits)

lemma stopUtsc_carried:
  assumes "selectedModem s = Some m"
  shows "carried m (emitted s (stopUtsc e s))"
proof (cases "stopUtsc_guard s")
  case None
  then show ?thesis by (simp add: stopUtsc_def prim_defs emitted_def)
next
  case (Some m')
  then have m': "m' = m" using assms by (simp add: stopUtsc_guard_def split: if_splits)
  obtain xs where
    "trace (stopUtsc_resume e (stopUtsc_begin m s)) = trace (stopUtsc_begin m s) @ xs" "carried m xs"
    using stopUtsc_resume_carried by blast
  then show ?thesis using Some m'
    by (simp add: stopUtsc_def trace_stopUtsc_begin emitted_def mac_of_requests
        has_community_requests)
qed

lemma pollUtscStatus_resume_carried:
  assumes "selectedModem s = Some m"
  shows "\<exists>xs. trace (pollUtscStatus_resume e s) = trace s @ xs \<and> carried m xs"
proof (cases "status_out e")
  case (Parsed r)
  show ?thesis
  proof (cases "is_ready r")
    case True
    have sel: "selectedModem (toast Success ''UTSC capture complete - fetching data...''
                        (s\<lparr>utscStatus := Some r, runningUtsc := False\<rparr>)) = Some m"
      using assms by (simp add: prim_defs)
    obtain xs where
      "trace (fetchUtscData e (toast Success ''UTSC capture complete - fetching data...''
                        (s\<lparr>utscStatus := Some r, runningUtsc := False\<rparr>)))
       = trace (toast Success ''UTSC capture complete - fetching data...''
                        (s\<lparr>utscStatus := Some r, runningUtsc := False\<rparr>)) @ xs" "carried m xs"
      using fetchUtscData_carried [OF sel] by blast
    then show ?thesis using Parsed True
      by (simp add: pollUtscStatus_resume_def Let_def prim_defs)
  next
    case False
    then show ?thesis using Parsed by (simp add: pollUtscStatus_resume_def Let_def prim_defs)
  qed
qed (simp_all add: pollUtscStatus_resume_def)

lemma pollUtscStatus_carried:
  assumes "selectedModem s = Some m"
  shows "carried m (emitted s (pollUtscStatus e s))"
proof (cases "runningUtsc s")
  case False
  then show ?thesis by (simp add: pollUtscStatus_def)
next
  case True
  have sel: "selectedModem (fetch (pollUtscStatus_request m s) s) = Some m"
    using assms by (simp add: prim_defs)
  obtain xs where
    "trace (pollUtscStatus_resume e (fetch (pollUtscStatus_request m s) s))
       = trace (fetch (pollUtscStatus_request m s) s) @ xs" "carried m xs"
    using pollUtscStatus_resume_carried [OF sel] by blast
  then show ?thesis using True assms
    by (simp add: pollUtscStatus_def fetch_def emit_def emitted_def mac_of_requests
        has_community_requests)
qed

text \<open>
  C7, as claimed, fails for one request. \<open>loadUpstreamInterfaces\<close>, which
  \<open>selectModem\<close> calls for a modem with a CMTS IP, posts the discovery of the RF port
  with the MAC address in its path and a body that holds \<open>cmts_ip\<close> and nothing else:
  there is no \<open>community\<close> in it, and no default is put in its place.
\<close>

theorem discovery_request_no_community_counterexample:
  "loadUpstreamInterfaces_request modem0
     \<in> set (measurement_requests ''rxmer'' ''172.16.6.212'' modem0 ready0)
   \<and> url (loadUpstreamInterfaces_request modem0)
       = ''/api/pypnm/upstream/discover-rf-port/aa:bb:cc:dd:ee:01''
   \<and> body (loadUpstreamInterfaces_request modem0) = [(''cmts_ip'', JStr ''172.16.6.212'')]
   \<and> map_of (body (loadUpstreamInterfaces_request modem0)) ''community'' = None
   \<and> \<not> has_community (loadUpstreamInterfaces_request modem0)"
  by (simp add: measurement_requests_def loadUpstreamInterfaces_request_def has_community_def
      opt_field_def modem0_def)

text \<open>
  C7, amended. Every measurement request of the component carries the MAC address of
  the selected modem in the path of its URL, and every one but the discovery of the RF
  port, which has no \<open>community\<close>, carries a non-empty \<open>community\<close> string in its
  body; so does every request that \<open>startUtsc\<close>, \<open>stopUtsc\<close>, \<open>pollUtscStatus\<close> and
  \<open>fetchUtscData\<close> send. The UTSC and upstream RxMER requests take the community from
  the \<open>cmts_community\<close> of the modem and put a fixed default in its place when the
  modem has none; the modem-side requests (\<open>loadSystemInfo\<close> among them) take
  \<open>snmpCommunityModem\<close> with a fixed default of their own.
\<close>

theorem measurement_requests_carry_mac_and_community:
  "(\<forall>r \<in> set (measurement_requests mt c m s).
      mac_in_path m r \<and> (r \<noteq> loadUpstreamInterfaces_request m \<longrightarrow> has_community r))
   \<and> \<not> has_community (loadUpstreamInterfaces_request m)
   \<and> (selectedModem s = Some m \<longrightarrow>
        carried m (emitted s (startUtsc e s)) \<and> carried m (emitted s (stopUtsc e s)) \<and>
        carried m (emitted s (pollUtscStatus e s)) \<and> carried m (emitted s (fetchUtscData e s)))
   \<and> (cmts_community m = None \<longrightarrow>
        map_of (body (startUtsc_request m c s)) ''community'' = Some (JStr ''Z1gg0Sp3c1@l'') \<and>
        map_of (body (stopUtsc_request m s)) ''community'' = Some (JStr ''Z1gg0Sp3c1@l'') \<and>
        map_of (body (fetchUtscData_request m s)) ''community'' = Some (JStr ''Z1gg0Sp3c1@l'') \<and>
        map_of (body (pollUtscStatus_request m s)) ''community'' = Some (JStr ''Z1gg0@LL'') \<and>
        map_of (body (configureUtsc_request m s)) ''community'' = Some (JStr ''Z1gg0@LL'') \<and>
        map_of (body (startUsRxmer_request m s)) ''community'' = Some (JStr ''Z1gg0@LL'') \<and>
        map_of (body (pollUsRxmerStatus_request m s)) ''community'' = Some (JStr ''Z1gg0@LL'') \<and>
        map_of (body (fetchUsRxmerData_request m s)) ''community'' = Some (JStr ''Z1gg0@LL''))
   \<and> map_of (body (loadSystemInfo_request m s)) ''community''
        = Some (JStr (js_or (Some (snmpCommunityModem s)) ''z1gg0m0n1t0r1ng''))"
proof -
  have a: "\<forall>r \<in> set (measurement_requests mt c m s).
      mac_in_path m r \<and> (r \<noteq> loadUpstreamInterfaces_request m \<longrightarrow> has_community r)"
    by (simp add: measurement_requests_def mac_of_requests has_community_requests)
  have b: "selectedModem s = Some m \<longrightarrow> carried m (emitted s (fetchUtscData e s))"
    using fetchUtscData_carried [of s m e] by auto
  have d: "cmts_community m = None \<longrightarrow>
        map_of (body (startUtsc_request m c s)) ''community'' = Some (JStr ''Z1gg0Sp3c1@l'') \<and>
        map_of (body (stopUtsc_request m s)) ''community'' = Some (JStr ''Z1gg0Sp3c1@l'') \<and>
        map_of (body (fetchUtscData_request m s)) ''community'' = Some (JStr ''Z1gg0Sp3c1@l'') \<and>
        map_of (body (pollUtscStatus_request m s)) ''community'' = Some (JStr ''Z1gg0@LL'') \<and>
        map_of (body (configureUtsc_request m s)) ''community'' = Some (JStr ''Z1gg0@LL'') \<and>
        map_of (body (startUsRxmer_request m s)) ''community'' = Some (JStr ''Z1gg0@LL'') \<and>
        map_of (body (pollUsRxmerStatus_request m s)) ''community'' = Some (JStr ''Z1gg0@LL'') \<and>
        map_of (body (fetchUsRxmerData_request m s)) ''community'' = Some (JStr ''Z1gg0@LL'')"
    by (simp add: community_of_requests js_or_def)
  show ?thesis
    using a b d startUtsc_carried [of s m e] stopUtsc_carried [of s m e]
      pollUtscStatus_carried [of s m e] community_of_requests(1) [of m s]
      discovery_no_community(2) [of m]
    by blast
qed

theorem measurement_requests_carry_mac_and_community_witness:
  "startUtsc_request modem0 ''172.16.6.212'' ready0
     \<in> set (measurement_requests ''rxmer'' ''172.16.6.212'' modem0 ready0) \<and>
   mac_in_path modem0 (startUtsc_request modem0 ''172.16.6.212'' ready0) \<and>
   startUtsc_request modem0 ''172.16.6.212'' ready0 \<noteq> loadUpstreamInterfaces_request modem0 \<and>
   has_community (startUtsc_request modem0 ''172.16.6.212'' ready0) \<and>
   loadUpstreamInterfaces_request modem0
     \<in> set (measurement_requests ''rxmer'' ''172.16.6.212'' modem0 ready0) \<and>
   mac_in_path modem0 (loadUpstreamInterfaces_request modem0) \<and>
   selectedModem ready0 = Some modem0 \<and>
   carried modem0 (emitted ready0 (startUtsc env0 ready0)) \<and>
   cmts_community modem0 = None \<and>
   map_of (body (startUtsc_request modem0 ''172.16.6.212'' ready0)) ''community''
     = Some (JStr ''Z1gg0Sp3c1@l'')"
proof -
  have h: "startUtsc_request modem0 ''172.16.6.212'' ready0
     \<in> set (measurement_requests ''rxmer'' ''172.16.6.212'' modem0 ready0)"
    "loadUpstreamInterfaces_request modem0
     \<in> set (measurement_requests ''rxmer'' ''172.16.6.212'' modem0 ready0)"
    by (simp_all add: measurement_requests_def)
  have n: "startUtsc_request modem0 ''172.16.6.212'' ready0 \<noteq> loadUpstreamInterfaces_request modem0"
    by (simp add: startUtsc_request_def loadUpstreamInterfaces_request_def)
  have g: "selectedModem ready0 = Some modem0" "cmts_community modem0 = None"
    by (simp_all add: ready0_def modem0_def)
  show ?thesis
    using h n g
      measurement_requests_carry_mac_and_community
        [where mt="''rxmer''" and c="''172.16.6.212''" and m=modem0 and s=ready0 and e=env0]
    by blast
qed


subsection \<open>The socket of the live stream\<close>

lemma held_close_status [simp]: "\<not> held (close_status x)"
  by (cases x) simp_all

lemma held_sockets_set:
  "set (held_sockets s) = {i. i < length (sockets s) \<and> held (sockets s ! i)}"
  by (auto simp add: held_sockets_def)

lemma held_inv_iff:
  "set (held_sockets s) \<subseteq> set_option (utscWebSocket s) \<longleftrightarrow>
     (\<forall>i < length (sockets s). held (sockets s ! i) \<longrightarrow> utscWebSocket s = Some i)"
  by (auto simp add: held_sockets_set)

lemma held_sockets_at_most_one:
  assumes "set (held_sockets s) \<subseteq> set_option (utscWebSocket s)"
  shows "length (held_sockets s) \<le> 1"
proof -
  have "distinct (held_sockets s)" by (simp add: held_sockets_def)
  then have "length (held_sockets s) = card (set (held_sockets s))"
    by (simp add: distinct_card)
  also have "\<dots> \<le> card (set_option (utscWebSocket s))"
    using assms by (intro card_mono) simp_all
  also have "\<dots> \<le> 1" by (cases "utscWebSocket s") simp_all
  finally show ?thesis .
qed

lemma stopWs_sockets:
  "sockets (stopUtscWebSocket s) =
     (case utscWebSocket s of
        None \<Rightarrow> sockets s
      | Some w \<Rightarrow> if w < length (sockets s)
                  then (sockets s)[w := close_status (sockets s ! w)] else sockets s)"
  by (simp add: stopUtscWebSocket_def ws_close_def emit_def Let_def split: option.splits)

lemma stopWs_none_held:
  assumes "set (held_sockets s) \<subseteq> set_option (utscWebSocket s)"
  shows "held_sockets (stopUtscWebSocket s) = []"
proof -
  have inv: "\<forall>i < length (sockets s). held (sockets s ! i) \<longrightarrow> utscWebSocket s = Some i"
    using assms by (simp add: held_inv_iff)
  have "\<forall>i < length (sockets (stopUtscWebSocket s)). \<not> held (sockets (stopUtscWebSocket s) ! i)"
    using inv by (auto simp add: stopWs_sockets nth_list_update split: option.splits)
  then have "set (held_sockets (stopUtscWebSocket s)) = {}"
    by (auto simp add: held_sockets_set)
  then show ?thesis by simp
qed

lemma startWs_result:
  "startUtscWebSocket e s =
     (case selectedModem s of
        None \<Rightarrow> s
      | Some m \<Rightarrow>
          if ctor_ok e
          then (emit (NewWebSocket (length (sockets s)) (utsc_ws_params m (stopUtscWebSocket s)))
                  (stopUtscWebSocket s))
                 \<lparr>sockets := sockets (stopUtscWebSocket s) @ [CONNECTING],
                  utscWebSocket := Some (length (sockets s))\<rparr>
          else toast Error ''Failed to connect UTSC stream'' (stopUtscWebSocket s))"
  by (simp add: startUtscWebSocket_def Let_def stopWs_sockets split: option.splits)

lemma ws_step_inv:
  assumes "set (held_sockets s) \<subseteq> set_option (utscWebSocket s)"
  shows "set (held_sockets (ws_step x s)) \<subseteq> set_option (utscWebSocket (ws_step x s))"
proof (cases x)
  case (CallStart e)
  have "{i. i < length (sockets (stopUtscWebSocket s)) \<and> held (sockets (stopUtscWebSocket s) ! i)} = {}"
    using stopWs_none_held [OF assms] held_sockets_set [of "stopUtscWebSocket s"] by simp
  then have none: "\<forall>i < length (sockets (stopUtscWebSocket s)). \<not> held (sockets (stopUtscWebSocket s) ! i)"
    by blast
  have len: "length (sockets (stopUtscWebSocket s)) = length (sockets s)"
    by (simp add: stopWs_sockets split: option.splits)
  show ?thesis
  proof (cases "selectedModem s")
    case None
    then show ?thesis using assms CallStart by (simp add: startWs_result)
  next
    case (Some m)
    show ?thesis
    proof (cases "ctor_ok e")
      case True
      then show ?thesis unfolding held_inv_iff using CallStart Some none len
        by (auto simp add: startWs_result emit_def nth_append)
    next
      case False
      then show ?thesis unfolding held_inv_iff using CallStart Some none
        by (auto simp add: startWs_result toast_eq)
    qed
  qed
next
  case CallStop
  then show ?thesis using stopWs_none_held [OF assms] by simp
next
  case (Opened w)
  have inv: "\<forall>i < length (sockets s). held (sockets s ! i) \<longrightarrow> utscWebSocket s = Some i"
    using assms by (simp add: held_inv_iff)
  show ?thesis unfolding held_inv_iff using Opened inv
    by (auto simp add: server_opened_def nth_list_update)
next
  case (Closed w)
  have inv: "\<forall>i < length (sockets s). held (sockets s ! i) \<longrightarrow> utscWebSocket s = Some i"
    using assms by (simp add: held_inv_iff)
  show ?thesis unfolding held_inv_iff using Closed inv
    by (auto simp add: server_closed_def nth_list_update)
qed

lemma ws_run_inv:
  "set (held_sockets s) \<subseteq> set_option (utscWebSocket s) \<Longrightarrow>
   set (held_sockets (ws_run evs s)) \<subseteq> set_option (utscWebSocket (ws_run evs s))"
proof (induction evs arbitrary: s)
  case Nil
  then show ?case by simp
next
  case (Cons x evs)
  show ?case using Cons.IH [OF ws_step_inv [OF Cons.prems]] by simp
qed

lemma stopWs_emitted:
  "utscWebSocket s = Some w \<longrightarrow> WsClose w \<in> set (emitted s (stopUtscWebSocket s))"
  "utscLiveInterval s = Some i \<longrightarrow> ClearInterval i \<in> set (emitted s (stopUtscWebSocket s))"
  "utscSciChart s = Some c \<longrightarrow> ChartDelete c \<in> set (emitted s (stopUtscWebSocket s))"
  by (simp_all add: stopUtscWebSocket_def destroyUtscSciChart_def ws_close_def emit_def
      Let_def emitted_def split: option.splits)

lemma stopWs_trace: "\<exists>xs. trace (stopUtscWebSocket s) = trace s @ xs"
  by (simp add: stopUtscWebSocket_def destroyUtscSciChart_def ws_close_def emit_def
      Let_def split: option.splits)

lemma startWs_after_stop:
  assumes "selectedModem s = Some m"
  shows "emitted s (startUtscWebSocket e s) =
     emitted s (stopUtscWebSocket s) @
       (if ctor_ok e
        then [NewWebSocket (length (sockets s)) (utsc_ws_params m (stopUtscWebSocket s))]
        else shown (toastInstalled s) Error (Text ''Failed to connect UTSC stream''))"
proof -
  obtain xs where "trace (stopUtscWebSocket s) = trace s @ xs"
    using stopWs_trace by blast
  then show ?thesis using assms
    by (simp add: startWs_result toast_eq emit_def emitted_def)
qed

text \<open>
  C8. At most one socket of the live stream is held at any time. \<open>stopUtscWebSocket\<close>
  closes the socket the field refers to, clears the field, clears the interval of the
  polling fallback and destroys the chart; \<open>startUtscWebSocket\<close> does all of that
  before it opens a socket, and does nothing without a selected modem. So from any
  state in which every held socket is the one the field refers to (\<open>data()\<close> is one),
  after any sequence of calls of the two methods, with the browser opening and
  closing sockets in between, at most one socket is connecting or open, and it is the
  one the field refers to.
\<close>

theorem at_most_one_utsc_websocket:
  assumes "set (held_sockets s) \<subseteq> set_option (utscWebSocket s)"
  shows "length (held_sockets (ws_run evs s)) \<le> 1
   \<and> set (held_sockets (ws_run evs s)) \<subseteq> set_option (utscWebSocket (ws_run evs s))
   \<and> held_sockets (stopUtscWebSocket s) = []
   \<and> utscWebSocket (stopUtscWebSocket s) = None
   \<and> utscLiveInterval (stopUtscWebSocket s) = None
   \<and> utscSciChart (stopUtscWebSocket s) = None
   \<and> (utscWebSocket s = Some w \<longrightarrow> WsClose w \<in> set (emitted s (stopUtscWebSocket s)))
   \<and> (utscLiveInterval s = Some i \<longrightarrow> ClearInterval i \<in> set (emitted s (stopUtscWebSocket s)))
   \<and> (utscSciChart s = Some c \<longrightarrow> ChartDelete c \<in> set (emitted s (stopUtscWebSocket s)))
   \<and> (selectedModem s = None \<longrightarrow> startUtscWebSocket e s = s)
   \<and> (selectedModem s = Some m \<longrightarrow>
        emitted s (startUtscWebSocket e s) =
          emitted s (stopUtscWebSocket s) @
            (if ctor_ok e
             then [NewWebSocket (length (sockets s)) (utsc_ws_params m (stopUtscWebSocket s))]
             else shown (toastInstalled s) Error (Text ''Failed to connect UTSC stream'')))
   \<and> (selectedModem s = Some m \<and> ctor_ok e \<longrightarrow>
        held_sockets (startUtscWebSocket e s) = [length (sockets s)] \<and>
        utscWebSocket (startUtscWebSocket e s) = Some (length (sockets s)))"
proof -
  have inv: "set (held_sockets (ws_run evs s)) \<subseteq> set_option (utscWebSocket (ws_run evs s))"
    using ws_run_inv [OF assms] .
  have one: "length (held_sockets (ws_run evs s)) \<le> 1"
    using held_sockets_at_most_one [OF inv] .
  have stop: "held_sockets (stopUtscWebSocket s) = []"
    using stopWs_none_held [OF assms] .
  have nomodem: "selectedModem s = None \<longrightarrow> startUtscWebSocket e s = s"
    by (simp add: startWs_result)
  have opened: "selectedModem s = Some m \<and> ctor_ok e \<longrightarrow>
        held_sockets (startUtscWebSocket e s) = [length (sockets s)] \<and>
        utscWebSocket (startUtscWebSocket e s) = Some (length (sockets s))"
  proof (intro impI, elim conjE)
    assume m: "selectedModem s = Some m" and ok: "ctor_ok e"
    have len: "length (sockets (stopUtscWebSocket s)) = length (sockets s)"
      by (simp add: stopWs_sockets split: option.splits)
    have eq: "held_sockets (stopUtscWebSocket s)
       = filter (\<lambda>i. held (sockets (stopUtscWebSocket s) ! i)) [0..<length (sockets s)]"
      by (simp add: held_sockets_def len)
    have "filter (\<lambda>i. held ((sockets (stopUtscWebSocket s) @ [CONNECTING]) ! i)) [0..<length (sockets s)]
       = filter (\<lambda>i. held (sockets (stopUtscWebSocket s) ! i)) [0..<length (sockets s)]"
      by (rule filter_cong) (simp_all add: nth_append len)
    then have "held_sockets (startUtscWebSocket e s) = [length (sockets s)]"
      using m ok stop eq by (simp add: startWs_result held_sockets_def emit_def len nth_append)
    moreover have "utscWebSocket (startUtscWebSocket e s) = Some (length (sockets s))"
      using m ok by (simp add: startWs_result emit_def)
    ultimately show "held_sockets (startUtscWebSocket e s) = [length (sockets s)] \<and>
        utscWebSocket (startUtscWebSocket e s) = Some (length (sockets s))" by simp
  qed
  show ?thesis
    using inv one stop nomodem opened stopWs_emitted(1) [where s=s and w=w]
      stopWs_emitted(2) [where s=s and i=i] stopWs_emitted(3) [where s=s and c=c]
      startWs_after_stop [where s=s and m=m and e=e]
    by simp
qed

lemma ready0_inv: "set (held_sockets ready0) \<subseteq> set_option (utscWebSocket ready0)"
  by (simp add: held_sockets_def ready0_def data0_def)

lemma ready0_restart:
  "sockets (ws_run [CallStart env0, CallStart env0, Opened 1] ready0) = [CLOSING, OPEN]"
  "utscWebSocket (ws_run [CallStart env0, CallStart env0, Opened 1] ready0) = Some 1"
  by (simp_all add: startWs_result stopWs_sockets server_opened_def emit_def
      ready0_def data0_def env0_def)

theorem at_most_one_utsc_websocket_witness:
  "set (held_sockets ready0) \<subseteq> set_option (utscWebSocket ready0) \<and>
   sockets (ws_run [CallStart env0, CallStart env0, Opened 1] ready0) = [CLOSING, OPEN] \<and>
   utscWebSocket (ws_run [CallStart env0, CallStart env0, Opened 1] ready0) = Some 1 \<and>
   length (held_sockets (ws_run [CallStart env0, CallStart env0, Opened 1] ready0)) \<le> 1 \<and>
   selectedModem ready0 = Some modem0 \<and> ctor_ok env0 \<and>
   held_sockets (startUtscWebSocket env0 ready0) = [length (sockets ready0)] \<and>
   utscWebSocket (startUtscWebSocket env0 ready0) = Some (length (sockets ready0))"
proof -
  have h: "selectedModem ready0 = Some modem0" "ctor_ok env0"
    by (simp_all add: ready0_def env0_def)
  show ?thesis
    using h ready0_inv ready0_restart
      at_most_one_utsc_websocket [OF ready0_inv, where m=modem0 and e=env0
        and evs="[CallStart env0, CallStart env0, Opened 1]"]
    by blast
qed

end
